theory Spec2Isabelle
  imports Main
begin

section \<open>Python values used by multihop\_topo.py\<close>

text \<open>
  Decimal rendering of numbers, as Python's \<open>str\<close>, \<open>"%s" % n\<close> and
  \<open>"{}".format(n)\<close> produce it.
\<close>

fun str_nat :: "nat \<Rightarrow> string" where
  "str_nat n =
     (if n < 10 then [''0123456789'' ! n]
      else str_nat (n div 10) @ [''0123456789'' ! (n mod 10)])"

declare str_nat.simps [simp del]

definition str_int :: "int \<Rightarrow> string" where
  "str_int i = (if i < 0 then CHR ''-'' # str_nat (nat (- i)) else str_nat (nat i))"

text \<open>
  Python subscription \<open>xs[i]\<close> of a list: a negative index counts from the end, an
  index out of range raises \<open>IndexError\<close>. The caller turns \<open>None\<close> into the
  exception.
\<close>

definition py_index :: "'a list \<Rightarrow> int \<Rightarrow> 'a option" where
  "py_index xs i =
     (if 0 \<le> i \<and> i < int (length xs) then Some (xs ! nat i)
      else if i < 0 \<and> - int (length xs) \<le> i then Some (xs ! nat (int (length xs) + i))
      else None)"

text \<open>\<open>range(a, b)\<close> over Python integers.\<close>

definition py_range :: "int \<Rightarrow> int \<Rightarrow> int list" where
  "py_range a b = map (\<lambda>k. a + int k) [0..<nat (b - a)]"

section \<open>The emulation backend as a trace of calls\<close>

text \<open>
  Commands run through \<open>subprocess.check_output(split(...))\<close>. The switch of the
  \<open>ovs-ofctl\<close> commands is kept as the number the source formats into \<open>s{}\<close>;
  \<open>cmdline\<close> gives the command text.
\<close>

datatype shell =
    OvsGetOfport string
  | OvsDelFlows nat
  | OvsAddFlow nat string string string
  | OvsDumpFlows nat
  | Ethtool string
  | Sysctl string nat

fun cmdline :: "shell \<Rightarrow> string" where
  "cmdline (OvsGetOfport ifce) = ''ovs-vsctl get Interface '' @ ifce @ '' ofport''"
| "cmdline (OvsDelFlows sw) = ''ovs-ofctl del-flows s'' @ str_nat sw"
| "cmdline (OvsAddFlow sw proto in_port out_port) =
     ''ovs-ofctl add-flow s'' @ str_nat sw @ '' \"'' @ proto @ '',in_port='' @ in_port
       @ '',actions=output='' @ out_port @ ''\"''"
| "cmdline (OvsDumpFlows sw) = ''ovs-ofctl dump-flows s'' @ str_nat sw"
| "cmdline (Ethtool ifce) = ''ethtool --offload '' @ ifce @ '' rx off tx off''"
| "cmdline (Sysctl key v) = ''sysctl -w '' @ key @ ''='' @ str_nat v"

text \<open>
  Every call the script makes on the emulator, the container manager, a host shell or
  the system. \<open>AddLinkNamedIfce n1 n2 delay loss\<close> has \<open>loss = None\<close> where the
  source passes no \<open>loss\<close> argument. \<open>AddDockerHost n dimage ip\<close> leaves out
  \<open>docker_args\<close>, which holds the name \<open>n\<close> again, and \<open>AddContainer\<close> its empty
  \<open>docker_args\<close>; the constructors \<open>Containernet\<close> and \<open>VNFManager\<close> leave out
  their constant arguments.
\<close>

datatype call =
    CheckOutput shell
  | Containernet
  | VNFManager
  | AddController string
  | AddDockerHost string string string
  | AddSwitch string
  | AddLinkNamedIfce string string string "nat option"
  | NetStart
  | NetStop
  | MgrStop
  | AddContainer string string string string nat
  | RemoveContainer string
  | GetLogs string
  | DinsLogs string
  | HostCmd string string

datatype outcome = Returned string | Raised

datatype event = Called call outcome | Slept int | Printed string

datatype exn =
    RuntimeError string
  | TypeError
  | IndexError
  | ValueError
  | BackendError call

type_synonym trace = "event list"

text \<open>
  The backend decides, from what has happened so far and the call, whether the call
  raises or returns, and what text it returns (an OpenFlow port, a command's output, a
  log). Calls whose value the script ignores return a text nobody reads.
\<close>

type_synonym backend = "trace \<Rightarrow> call \<Rightarrow> outcome"

text \<open>
  A computation takes the trace so far and gives an exception or a value, with the
  extended trace. All exceptions of the model derive from \<open>Exception\<close>.
\<close>

type_synonym 'a prog = "trace \<Rightarrow> (exn + 'a) \<times> trace"

definition ret :: "'a \<Rightarrow> 'a prog" where
  "ret x tr = (Inr x, tr)"

definition throw :: "exn \<Rightarrow> 'a prog" where
  "throw e tr = (Inl e, tr)"

definition bindE :: "'a prog \<Rightarrow> ('a \<Rightarrow> 'b prog) \<Rightarrow> 'b prog" where
  "bindE m f tr = (case m tr of (Inl e, tr1) \<Rightarrow> (Inl e, tr1) | (Inr x, tr1) \<Rightarrow> f x tr1)"

text \<open>\<open>try: m except Exception as e: h e\<close>\<close>

definition try_except :: "'a prog \<Rightarrow> (exn \<Rightarrow> 'a prog) \<Rightarrow> 'a prog" where
  "try_except m h tr = (case m tr of (Inl e, tr1) \<Rightarrow> h e tr1 | (Inr x, tr1) \<Rightarrow> (Inr x, tr1))"

text \<open>
  \<open>try: m finally: f\<close>: \<open>f\<close> runs on both exits of \<open>m\<close>; an exception of
  \<open>f\<close> replaces the outcome of \<open>m\<close>.
\<close>

definition try_finally :: "'a prog \<Rightarrow> unit prog \<Rightarrow> 'a prog" where
  "try_finally m f tr =
     (case m tr of (r, tr1) \<Rightarrow>
        (case f tr1 of (Inl e, tr2) \<Rightarrow> (Inl e, tr2) | (Inr _, tr2) \<Rightarrow> (r, tr2)))"

definition backend_call :: "backend \<Rightarrow> call \<Rightarrow> string prog" where
  "backend_call bk c tr =
     (case bk tr c of
        Raised \<Rightarrow> (Inl (BackendError c), tr @ [Called c Raised])
      | Returned s \<Rightarrow> (Inr s, tr @ [Called c (Returned s)]))"

definition check_output :: "backend \<Rightarrow> shell \<Rightarrow> string prog" where
  "check_output bk c = backend_call bk (CheckOutput c)"

text \<open>\<open>time.sleep(n)\<close> raises \<open>ValueError\<close> on a negative length.\<close>

definition sleep :: "int \<Rightarrow> unit prog" where
  "sleep n tr = (if n < 0 then (Inl ValueError, tr) else (Inr (), tr @ [Slept n]))"

definition print :: "string \<Rightarrow> unit prog" where
  "print s tr = (Inr (), tr @ [Printed s])"

section \<open>create\_topology\<close>

text \<open>
  A host object as the script uses it: its \<open>name\<close> and the address \<open>IP()\<close>
  returns, which are the ones \<open>addDockerHost\<close> was given. A switch is used through
  its name only. The objects the backend returns are truthy, so \<open>if last_sw\<close> tests
  \<open>last_sw\<close> against \<open>None\<close>.

  Logging through \<open>mininet.log\<close> (\<open>info\<close>, \<open>error\<close>) calls nothing of the
  backend and is left out of the trace; where building a log message can raise, the
  raise is modelled.
\<close>

record node =
  name :: string
  IP :: string

fun topo_loop :: "backend \<Rightarrow> nat list \<Rightarrow> node list \<Rightarrow> string option \<Rightarrow> (node list) prog" where
  "topo_loop bk [] hosts last_sw = ret hosts"
| "topo_loop bk (i # is) hosts last_sw =
     bindE (backend_call bk
              (AddDockerHost (''h'' @ str_nat (i + 1)) ''dev_test'' (''10.0.0.'' @ str_nat (i + 1))))
       (\<lambda>_. let host = \<lparr>name = ''h'' @ str_nat (i + 1), IP = ''10.0.0.'' @ str_nat (i + 1)\<rparr>;
                 hosts' = hosts @ [host];
                 switch = ''s'' @ str_nat (i + 1)
             in
       bindE (backend_call bk (AddSwitch switch))
       (\<lambda>_.
       bindE (backend_call bk (AddLinkNamedIfce switch (name host) ''20ms'' None))
       (\<lambda>_.
       bindE (case last_sw of
                None \<Rightarrow> ret ()
              | Some l \<Rightarrow>
                  bindE (backend_call bk (AddLinkNamedIfce switch l ''20ms'' (Some 20)))
                    (\<lambda>_. ret ()))
       (\<lambda>_. topo_loop bk is hosts' (Some switch)))))"

text \<open>
  The result is \<open>Some hosts\<close> on \<open>return hosts\<close> and \<open>None\<close> when the function
  falls off its end after the \<open>except\<close> block, which logs the error and calls
  \<open>net.stop()\<close>. An exception of that \<open>net.stop()\<close> leaves the function.
\<close>

definition create_topology :: "backend \<Rightarrow> int \<Rightarrow> (node list option) prog" where
  "create_topology bk host_num =
     (if host_num < 5 then throw (RuntimeError ''Require at least 5 hosts'')
      else try_except
             (bindE (backend_call bk (AddController ''c0''))
                (\<lambda>_. bindE (topo_loop bk [0..<nat host_num] [] None)
                (\<lambda>hosts. ret (Some hosts))))
             (\<lambda>e. bindE (backend_call bk NetStop) (\<lambda>_. ret None)))"

section \<open>config\_ipv6, get\_ofport, add\_ovs\_flows, dump\_ovs\_flows, disable\_cksum\_offload\<close>

definition config_ipv6 :: "backend \<Rightarrow> string \<Rightarrow> unit prog" where
  "config_ipv6 bk action =
     (let v = (if action = ''disable'' then 1 else 0) in
      bindE (check_output bk (Sysctl ''net.ipv6.conf.all.disable_ipv6'' v))
      (\<lambda>_. bindE (check_output bk (Sysctl ''net.ipv6.conf.default.disable_ipv6'' v))
      (\<lambda>_. ret ())))"

definition get_ofport :: "backend \<Rightarrow> string \<Rightarrow> string prog" where
  "get_ofport bk ifce = check_output bk (OvsGetOfport ifce)"

text \<open>A \<open>for\<close> loop without \<open>break\<close>: an exception of the body ends it.\<close>

fun for_each :: "'a list \<Rightarrow> ('a \<Rightarrow> unit prog) \<Rightarrow> unit prog" where
  "for_each [] body = ret ()"
| "for_each (x # xs) body = bindE (body x) (\<lambda>_. for_each xs body)"

text \<open>The body of the loop of \<open>add_ovs_flows\<close>; \<open>continue\<close> ends it at \<open>i = 0\<close>.\<close>

definition add_ovs_flows_body :: "backend \<Rightarrow> nat \<Rightarrow> unit prog" where
  "add_ovs_flows_body bk i =
     bindE (check_output bk (OvsDelFlows (i + 1)))
     (\<lambda>_. bindE (get_ofport bk (''s'' @ str_nat (i + 1) @ ''-h'' @ str_nat (i + 1)))
     (\<lambda>in_port. bindE (get_ofport bk (''s'' @ str_nat (i + 1) @ ''-s'' @ str_nat (i + 2)))
     (\<lambda>out_port. bindE (check_output bk (OvsAddFlow (i + 1) ''udp'' in_port out_port))
     (\<lambda>_. if i = 0 then ret ()
          else
            bindE (get_ofport bk (''s'' @ str_nat (i + 1) @ ''-s'' @ str_nat i))
            (\<lambda>in_port. bindE (get_ofport bk (''s'' @ str_nat (i + 1) @ ''-h'' @ str_nat (i + 1)))
            (\<lambda>out_port. bindE (check_output bk (OvsAddFlow (i + 1) ''udp'' in_port out_port))
            (\<lambda>_. ret ())))))))"

definition add_ovs_flows :: "backend \<Rightarrow> int \<Rightarrow> unit prog" where
  "add_ovs_flows bk switch_num = for_each [0..<nat (switch_num - 1)] (add_ovs_flows_body bk)"

definition dump_ovs_flows :: "backend \<Rightarrow> int \<Rightarrow> unit prog" where
  "dump_ovs_flows bk switch_num =
     for_each [0..<nat switch_num]
       (\<lambda>i. bindE (check_output bk (OvsDumpFlows (i + 1))) (\<lambda>r. print r))"

definition disable_cksum_offload :: "backend \<Rightarrow> int \<Rightarrow> unit prog" where
  "disable_cksum_offload bk switch_num =
     for_each [0..<nat switch_num]
       (\<lambda>i. bindE (check_output bk (Ethtool (''s'' @ str_nat (i + 1) @ ''-h'' @ str_nat (i + 1))))
               (\<lambda>_. ret ()))"

section \<open>deploy\_coders, remove\_coders, print\_coders\_log\<close>

definition subscript :: "'a list \<Rightarrow> int \<Rightarrow> 'a prog" where
  "subscript xs i = (case py_index xs i of None \<Rightarrow> throw IndexError | Some x \<Rightarrow> ret x)"

text \<open>
  \<open>hosts\<close> is \<open>None\<close> when \<open>create_topology\<close> returned nothing; subscripting
  \<open>None\<close> raises \<open>TypeError\<close>.
\<close>

definition subscript_opt :: "'a list option \<Rightarrow> int \<Rightarrow> 'a prog" where
  "subscript_opt xs i = (case xs of None \<Rightarrow> throw TypeError | Some ys \<Rightarrow> subscript ys i)"

text \<open>
  The loop over \<open>range(rec_st_idx, rec_st_idx + relay_num)\<close>. A container object is
  used through its name only, so it is modelled by the name it was added under. The
  action is read before \<open>hosts[i]\<close>, as the source evaluates \<open>rec_cli\<close> first.
\<close>

fun relay_loop ::
    "backend \<Rightarrow> node list \<Rightarrow> string list \<Rightarrow> int list \<Rightarrow> string list \<Rightarrow> (string list) prog" where
  "relay_loop bk hosts action_map [] recoders = ret recoders"
| "relay_loop bk hosts action_map (i # is) recoders =
     bindE (subscript action_map (i - 2))
     (\<lambda>action. bindE (subscript hosts i)
     (\<lambda>h. bindE (backend_call bk
                   (AddContainer (''recoder_on_h'' @ str_int (i + 1)) (name h) ''nc_coder''
                      (''python3 ./recoder.py '' @ ''h'' @ str_int (i + 1) @ ''-s'' @ str_int (i + 1)
                         @ '' --action '' @ action) 3))
     (\<lambda>_. relay_loop bk hosts action_map is (recoders @ [''recoder_on_h'' @ str_int (i + 1)]))))"

text \<open>
  The first use of \<open>hosts\<close> is the slice \<open>hosts[rec_st_idx : rec_st_idx + relay_num]\<close>
  of the log message: it raises \<open>TypeError\<close> on \<open>None\<close> and nothing on a list.
\<close>

definition deploy_coders ::
    "backend \<Rightarrow> node list option \<Rightarrow> int \<Rightarrow> int \<Rightarrow> string list
       \<Rightarrow> (string \<times> string \<times> string list) prog" where
  "deploy_coders bk hosts rec_st_idx relay_num action_map =
     (case hosts of
        None \<Rightarrow> throw TypeError
      | Some hs \<Rightarrow>
          bindE (relay_loop bk hs action_map (py_range rec_st_idx (rec_st_idx + relay_num)) [])
          (\<lambda>recoders. bindE (sleep relay_num)
          (\<lambda>_. bindE (subscript hs (- 2))
          (\<lambda>h_dec. bindE (backend_call bk
                        (AddContainer ''decoder'' (name h_dec) ''nc_coder''
                           (''python3 ./decoder.py h'' @ str_int (int (length hs) - 1)
                              @ ''-s'' @ str_int (int (length hs) - 1)) 3))
          (\<lambda>_. bindE (subscript hs 1)
          (\<lambda>h_enc. bindE (backend_call bk
                        (AddContainer ''encoder'' (name h_enc) ''nc_coder''
                           ''python3 ./encoder.py h2-s2'' 3))
          (\<lambda>_. ret (''encoder'', ''decoder'', recoders))))))))"

definition remove_coders :: "backend \<Rightarrow> string \<times> string \<times> string list \<Rightarrow> unit prog" where
  "remove_coders bk coders =
     (case coders of (encoder, decoder, recoders) \<Rightarrow>
        bindE (backend_call bk (RemoveContainer encoder))
        (\<lambda>_. bindE (backend_call bk (RemoveContainer decoder))
        (\<lambda>_. for_each recoders
               (\<lambda>r. bindE (backend_call bk (RemoveContainer r)) (\<lambda>_. ret ())))))"

text \<open>\<open>coder_log_conf.get(k, None)\<close> is truthy when the key is there with \<open>True\<close>.\<close>

definition print_coders_log ::
    "backend \<Rightarrow> string \<times> string \<times> string list \<Rightarrow> (string \<rightharpoonup> bool) \<Rightarrow> unit prog" where
  "print_coders_log bk coders coder_log_conf =
     (case coders of (encoder, decoder, recoders) \<Rightarrow>
        bindE (if coder_log_conf ''recoder'' = Some True
               then for_each recoders (\<lambda>r. bindE (backend_call bk (GetLogs r)) (\<lambda>l. print l))
               else ret ())
        (\<lambda>_. bindE (if coder_log_conf ''decoder'' = Some True
                    then bindE (backend_call bk (DinsLogs decoder)) (\<lambda>l. print l)
                    else ret ())
        (\<lambda>_. if coder_log_conf ''encoder'' = Some True
             then bindE (backend_call bk (DinsLogs encoder)) (\<lambda>l. print l)
             else ret ())))"

section \<open>run\_iperf\_test\<close>

text \<open>
  The dictionary \<open>iperf_client_para\<close>, after the \<open>if\<close> on the protocol.
  \<open>SYMBOL_SIZE\<close> and \<open>META_DATA_LEN\<close> come from the module \<open>common\<close>, which is
  not part of the file: they are parameters here.
\<close>

record iperf_para =
  para_server_ip :: string
  para_port :: int
  para_bw :: string
  para_time :: int
  para_interval :: int
  para_length :: string
  para_proto :: string
  para_suffix :: string

definition iperf_client_para :: "int \<Rightarrow> int \<Rightarrow> node \<Rightarrow> string \<Rightarrow> int \<Rightarrow> iperf_para" where
  "iperf_client_para SYMBOL_SIZE META_DATA_LEN h_srv proto time =
     (let para = \<lparr>para_server_ip = IP h_srv, para_port = 9999, para_bw = ''50K'',
                   para_time = time, para_interval = 1,
                   para_length = str_int (SYMBOL_SIZE - META_DATA_LEN),
                   para_proto = ''-u'', para_suffix = ''> /dev/null 2>&1 &''\<rparr>
      in if proto = ''UDP'' \<or> proto = ''udp''
         then para\<lparr>para_proto := ''-u'', para_suffix := []\<rparr>
         else para)"

definition iperf_clt_cmd :: "iperf_para \<Rightarrow> string" where
  "iperf_clt_cmd para =
     ''iperf -c '' @ para_server_ip para @ '' -p '' @ str_int (para_port para)
       @ '' -t '' @ str_int (para_time para) @ '' -i '' @ str_int (para_interval para)
       @ '' -b '' @ para_bw para @ '' -l '' @ para_length para
       @ '' '' @ para_proto para @ '' '' @ para_suffix para"

definition iperf_srv_cmd :: "iperf_para \<Rightarrow> string" where
  "iperf_srv_cmd para =
     ''iperf -s -p 9999 -i 1 '' @ para_proto para @ '' > /tmp/iperf_server.log 2>&1 &''"

definition run_iperf_test ::
    "backend \<Rightarrow> int \<Rightarrow> int \<Rightarrow> node \<Rightarrow> node \<Rightarrow> string \<Rightarrow> int \<Rightarrow> bool \<Rightarrow> unit prog" where
  "run_iperf_test bk SYMBOL_SIZE META_DATA_LEN h_clt h_srv proto time print_clt_log =
     (let para = iperf_client_para SYMBOL_SIZE META_DATA_LEN h_srv proto time in
      bindE (backend_call bk (HostCmd (name h_srv) (iperf_srv_cmd para)))
      (\<lambda>_. bindE (print (''Iperf client command: '' @ iperf_clt_cmd para))
      (\<lambda>_. bindE (backend_call bk (HostCmd (name h_clt) (iperf_clt_cmd para)))
      (\<lambda>r. bindE (backend_call bk (HostCmd (name h_srv) ''cat /tmp/iperf_server.log''))
      (\<lambda>srv_log. bindE (print srv_log)
      (\<lambda>_. if print_clt_log then print r else ret ()))))))"

section \<open>run\_multihop\_nc\_test\<close>

text \<open>
  Lines 292 to 294: the action map of sweep step \<open>i\<close>. \<open>ALL_FOWARD\<close> is the
  global the command line sets; it is a parameter here.
\<close>

definition build_action_map :: "int \<Rightarrow> bool \<Rightarrow> nat \<Rightarrow> (string list) prog" where
  "build_action_map relay_num ALL_FOWARD i =
     (let action_map = replicate (nat relay_num) ''forward'' in
      if \<not> ALL_FOWARD
      then (if i < length action_map then ret (action_map[i := ''recode''])
            else throw IndexError)
      else ret action_map)"

text \<open>Lines 299 to 304: one variant of the sweep, for a given action map.\<close>

definition sweep_variant ::
    "backend \<Rightarrow> int \<Rightarrow> int \<Rightarrow> node list option \<Rightarrow> int \<Rightarrow> int \<Rightarrow> (string \<rightharpoonup> bool) \<Rightarrow> string list
       \<Rightarrow> unit prog" where
  "sweep_variant bk SYMBOL_SIZE META_DATA_LEN hosts rec_st_idx relay_num coder_log_conf action_map =
     bindE (deploy_coders bk hosts rec_st_idx relay_num action_map)
     (\<lambda>coders. bindE (sleep 3)
     (\<lambda>_. bindE (subscript_opt hosts 0)
     (\<lambda>h_clt. bindE (subscript_opt hosts (- 1))
     (\<lambda>h_srv. bindE (run_iperf_test bk SYMBOL_SIZE META_DATA_LEN h_clt h_srv ''udp'' 30 False)
     (\<lambda>_. bindE (print_coders_log bk coders coder_log_conf)
     (\<lambda>_. remove_coders bk coders))))))"

text \<open>The loop over \<open>range(relay_num)\<close>, with its \<open>break\<close> under \<open>ALL_FOWARD\<close>.\<close>

fun sweep_loop ::
    "backend \<Rightarrow> int \<Rightarrow> int \<Rightarrow> bool \<Rightarrow> node list option \<Rightarrow> int \<Rightarrow> int \<Rightarrow> (string \<rightharpoonup> bool) \<Rightarrow> nat list
       \<Rightarrow> unit prog" where
  "sweep_loop bk SYMBOL_SIZE META_DATA_LEN ALL_FOWARD hosts rec_st_idx relay_num coder_log_conf [] =
     ret ()"
| "sweep_loop bk SYMBOL_SIZE META_DATA_LEN ALL_FOWARD hosts rec_st_idx relay_num coder_log_conf (i # is) =
     bindE (build_action_map relay_num ALL_FOWARD i)
     (\<lambda>action_map.
        bindE (sweep_variant bk SYMBOL_SIZE META_DATA_LEN hosts rec_st_idx relay_num
                 coder_log_conf action_map)
     (\<lambda>_. if ALL_FOWARD then ret ()
          else sweep_loop bk SYMBOL_SIZE META_DATA_LEN ALL_FOWARD hosts rec_st_idx relay_num
                 coder_log_conf is))"

text \<open>\<open>PROFILES = {"mobile_recoder_deterministic": 0}\<close>\<close>

definition PROFILES_mobile_recoder_deterministic :: int where
  "PROFILES_mobile_recoder_deterministic = 0"

text \<open>
  Lines 272 to 276, before the \<open>try\<close>: nothing catches what these raise.
\<close>

definition run_setup :: "backend \<Rightarrow> int \<Rightarrow> (node list option) prog" where
  "run_setup bk host_num =
     bindE (config_ipv6 bk ''disable'')
     (\<lambda>_. bindE (backend_call bk Containernet)
     (\<lambda>_. bindE (backend_call bk VNFManager)
     (\<lambda>_. create_topology bk host_num)))"

text \<open>Lines 282 to 309: the body of the \<open>try\<close>.\<close>

definition run_body ::
    "backend \<Rightarrow> int \<Rightarrow> int \<Rightarrow> bool \<Rightarrow> int \<Rightarrow> int \<Rightarrow> (string \<rightharpoonup> bool) \<Rightarrow> node list option
       \<Rightarrow> unit prog" where
  "run_body bk SYMBOL_SIZE META_DATA_LEN ALL_FOWARD host_num profile coder_log_conf hosts =
     (let relay_num = host_num - 2 - 2; rec_st_idx = 2 in
      bindE (backend_call bk NetStart)
      (\<lambda>_. bindE (add_ovs_flows bk host_num)
      (\<lambda>_. bindE (disable_cksum_offload bk host_num)
      (\<lambda>_. if profile = PROFILES_mobile_recoder_deterministic
           then sweep_loop bk SYMBOL_SIZE META_DATA_LEN ALL_FOWARD hosts rec_st_idx relay_num
                  coder_log_conf [0..<nat relay_num]
           else ret ()))))"

text \<open>Lines 315 to 318: the \<open>finally\<close> block.\<close>

definition run_finally :: "backend \<Rightarrow> unit prog" where
  "run_finally bk =
     bindE (backend_call bk NetStop)
     (\<lambda>_. bindE (backend_call bk MgrStop)
     (\<lambda>_. config_ipv6 bk ''enable''))"

text \<open>The \<open>except\<close> block logs the exception and goes on to the \<open>finally\<close> block.\<close>

definition run_multihop_nc_test ::
    "backend \<Rightarrow> int \<Rightarrow> int \<Rightarrow> bool \<Rightarrow> int \<Rightarrow> int \<Rightarrow> (string \<rightharpoonup> bool) \<Rightarrow> unit prog" where
  "run_multihop_nc_test bk SYMBOL_SIZE META_DATA_LEN ALL_FOWARD host_num profile coder_log_conf =
     bindE (run_setup bk host_num)
     (\<lambda>hosts.
        try_finally
          (try_except
             (run_body bk SYMBOL_SIZE META_DATA_LEN ALL_FOWARD host_num profile coder_log_conf hosts)
             (\<lambda>e. ret ()))
          (run_finally bk))"

section \<open>Reading a trace\<close>

text \<open>\<open>is_call c e\<close>: the event is the call \<open>c\<close>, whatever came of it.\<close>

fun is_call :: "call \<Rightarrow> event \<Rightarrow> bool" where
  "is_call c (Called c' r) = (c = c')"
| "is_call c (Slept n) = False"
| "is_call c (Printed s) = False"

text \<open>\<open>returned c e\<close>: the event is the call \<open>c\<close>, and it returned.\<close>

fun returned :: "call \<Rightarrow> event \<Rightarrow> bool" where
  "returned c (Called c' (Returned s)) = (c = c')"
| "returned c (Called c' Raised) = False"
| "returned c (Slept n) = False"
| "returned c (Printed s) = False"

text \<open>
  The hosts (name and address), the switches and the links (both ends, delay, loss)
  that were added to the network: the calls that returned.
\<close>

fun host_of_event :: "event \<Rightarrow> (string \<times> string) list" where
  "host_of_event (Called (AddDockerHost n dimage ip) (Returned s)) = [(n, ip)]"
| "host_of_event e = []"

fun switch_of_event :: "event \<Rightarrow> string list" where
  "switch_of_event (Called (AddSwitch n) (Returned s)) = [n]"
| "switch_of_event e = []"

fun link_of_event :: "event \<Rightarrow> (string \<times> string \<times> string \<times> nat option) list" where
  "link_of_event (Called (AddLinkNamedIfce a b delay loss) (Returned s)) = [(a, b, delay, loss)]"
| "link_of_event e = []"

definition added_hosts :: "trace \<Rightarrow> (string \<times> string) list" where
  "added_hosts tr = concat (map host_of_event tr)"

definition added_switches :: "trace \<Rightarrow> string list" where
  "added_switches tr = concat (map switch_of_event tr)"

definition added_links :: "trace \<Rightarrow> (string \<times> string \<times> string \<times> nat option) list" where
  "added_links tr = concat (map link_of_event tr)"

text \<open>
  The rules (protocol, in port, out port) installed on switch number \<open>sw\<close> since its
  last flush: \<open>del-flows\<close> empties the list, \<open>add-flow\<close> extends it.
\<close>

fun installed_step ::
    "nat \<Rightarrow> (string \<times> string \<times> string) list \<Rightarrow> event \<Rightarrow> (string \<times> string \<times> string) list" where
  "installed_step sw rules (Called (CheckOutput (OvsDelFlows s)) (Returned r)) =
     (if s = sw then [] else rules)"
| "installed_step sw rules (Called (CheckOutput (OvsAddFlow s proto in_port out_port)) (Returned r)) =
     (if s = sw then rules @ [(proto, in_port, out_port)] else rules)"
| "installed_step sw rules e = rules"

definition installed_rules :: "nat \<Rightarrow> trace \<Rightarrow> (string \<times> string \<times> string) list" where
  "installed_rules sw tr = foldl (installed_step sw) [] tr"

text \<open>The value last written to a \<open>sysctl\<close> key, if any write returned.\<close>

fun sysctl_step :: "string \<Rightarrow> nat option \<Rightarrow> event \<Rightarrow> nat option" where
  "sysctl_step k v (Called (CheckOutput (Sysctl k' v')) (Returned r)) = (if k' = k then Some v' else v)"
| "sysctl_step k v e = v"

definition sysctl_value :: "string \<Rightarrow> trace \<Rightarrow> nat option" where
  "sysctl_value k tr = foldl (sysctl_step k) None tr"

text \<open>The links that hop \<open>i\<close> of the chain adds: to its host, and to the switch before it.\<close>

definition hop_links :: "nat \<Rightarrow> (string \<times> string \<times> string \<times> nat option) list" where
  "hop_links i =
     (''s'' @ str_nat (i + 1), ''h'' @ str_nat (i + 1), ''20ms'', None)
       # (if i = 0 then [] else [(''s'' @ str_nat (i + 1), ''s'' @ str_nat i, ''20ms'', Some 20)])"

text \<open>
  The call that starts the relay of host index \<open>i\<close>, for \<open>2 \<le> i\<close> within both
  lists: lines 118 to 127.
\<close>

definition relay_call :: "node list \<Rightarrow> string list \<Rightarrow> int \<Rightarrow> call" where
  "relay_call hosts action_map i =
     AddContainer (''recoder_on_h'' @ str_int (i + 1)) (name (hosts ! nat i)) ''nc_coder''
       (''python3 ./recoder.py h'' @ str_int (i + 1) @ ''-s'' @ str_int (i + 1)
          @ '' --action '' @ action_map ! nat (i - 2)) 3"

section \<open>Example backends, traces and hosts\<close>

text \<open>Every call returns.\<close>

definition backend_ok :: backend where
  "backend_ok tr c = Returned ''1''"

text \<open>Adding the second switch fails; every other call returns.\<close>

definition backend_s2_fails :: backend where
  "backend_s2_fails tr c = (if c = AddSwitch ''s2'' then Raised else Returned ''1'')"

text \<open>A trace after which switch 2 holds a rule that this script did not install.\<close>

definition trace_old_rule :: trace where
  "trace_old_rule = [Called (CheckOutput (OvsAddFlow 2 ''tcp'' ''7'' ''8'')) (Returned [])]"


text \<open>Creating the manager of the containers fails; every other call returns.\<close>

definition backend_mgr_fails :: backend where
  "backend_mgr_fails tr c = (if c = VNFManager then Raised else Returned ''1'')"

text \<open>Seven hosts, as \<open>create_topology\<close> returns them for \<open>host_num = 7\<close>.\<close>

definition hosts7 :: "node list" where
  "hosts7 = map (\<lambda>i. \<lparr>name = ''h'' @ str_nat (i + 1), IP = ''10.0.0.'' @ str_nat (i + 1)\<rparr>) [0..<7]"

section \<open>The monad\<close>

lemma bindE_Inr:
  "bindE m f tr = (Inr y, tr') \<longleftrightarrow> (\<exists>x tr1. m tr = (Inr x, tr1) \<and> f x tr1 = (Inr y, tr'))"
  by (auto simp: bindE_def split: prod.splits sum.splits)

lemma backend_call_Inr:
  "backend_call bk c tr = (Inr s, tr') \<longleftrightarrow> bk tr c = Returned s \<and> tr' = tr @ [Called c (Returned s)]"
  by (auto simp: backend_call_def split: outcome.splits)

lemma ret_Inr: "ret x tr = (Inr y, tr') \<longleftrightarrow> y = x \<and> tr' = tr"
  by (auto simp: ret_def)

section \<open>Validation of the host count\<close>

text \<open>
  C3. With \<open>host_num < 5\<close>, \<open>create_topology\<close> raises the \<open>RuntimeError\<close> of its
  check (the spec's ConfigurationError) and the trace is unchanged: no backend call was
  made. With \<open>host_num \<ge> 5\<close> it never ends in a \<open>RuntimeError\<close>.
\<close>

theorem create_topology_validation:
  "(host_num < 5 \<longrightarrow>
      create_topology bk host_num tr = (Inl (RuntimeError ''Require at least 5 hosts''), tr))
   \<and> (5 \<le> host_num \<longrightarrow> (\<forall>msg. fst (create_topology bk host_num tr) \<noteq> Inl (RuntimeError msg)))"
  by (auto simp: create_topology_def throw_def try_except_def bindE_def backend_call_def ret_def
           split: prod.splits sum.splits outcome.splits)

theorem create_topology_validation_witness:
  "create_topology backend_ok 4 [] = (Inl (RuntimeError ''Require at least 5 hosts''), [])
   \<and> fst (create_topology backend_ok 5 []) \<noteq> Inl (RuntimeError ''Require at least 5 hosts'')"
  using create_topology_validation [of 4 backend_ok "[]"]
        create_topology_validation [of 5 backend_ok "[]"]
  by simp

section \<open>The assembled topology\<close>

lemma added_append [simp]:
  "added_hosts (xs @ ys) = added_hosts xs @ added_hosts ys"
  "added_switches (xs @ ys) = added_switches xs @ added_switches ys"
  "added_links (xs @ ys) = added_links xs @ added_links ys"
  by (simp_all add: added_hosts_def added_switches_def added_links_def)

lemma added_Nil [simp]:
  "added_hosts [] = []" "added_switches [] = []" "added_links [] = []"
  by (simp_all add: added_hosts_def added_switches_def added_links_def)

lemma added_Cons [simp]:
  "added_hosts (e # es) = host_of_event e @ added_hosts es"
  "added_switches (e # es) = switch_of_event e @ added_switches es"
  "added_links (e # es) = link_of_event e @ added_links es"
  by (simp_all add: added_hosts_def added_switches_def added_links_def)

lemma topo_loop_Inr:
  "topo_loop bk is hosts0 last_sw tr = (Inr hosts, tr') \<Longrightarrow> is = [k..<n] \<Longrightarrow>
   last_sw = (if k = 0 then None else Some (''s'' @ str_nat k)) \<Longrightarrow>
   \<exists>evs. tr' = tr @ evs
     \<and> hosts = hosts0 @ map (\<lambda>i. \<lparr>name = ''h'' @ str_nat (i + 1), IP = ''10.0.0.'' @ str_nat (i + 1)\<rparr>) [k..<n]
     \<and> added_hosts evs = map (\<lambda>i. (''h'' @ str_nat (i + 1), ''10.0.0.'' @ str_nat (i + 1))) [k..<n]
     \<and> added_switches evs = map (\<lambda>i. ''s'' @ str_nat (i + 1)) [k..<n]
     \<and> added_links evs = concat (map hop_links [k..<n])"
proof (induction "is" arbitrary: k hosts0 last_sw tr)
  case Nil
  then show ?case by (simp add: ret_Inr)
next
  case (Cons i "is")
  from Cons.prems(2) [symmetric] have ik: "i = k" and kn: "k < n" and rest: "is = [Suc k..<n]"
    by (auto simp: upt_eq_Cons_conv)
  have upt: "[k..<n] = k # [Suc k..<n]" using kn by (simp add: upt_conv_Cons)
  show ?case
  proof (cases "k = 0")
    case True
    with Cons.prems(1,3) ik obtain s1 s2 s3 where
      loop: "topo_loop bk is (hosts0 @ [\<lparr>name = ''h'' @ str_nat (k + 1), IP = ''10.0.0.'' @ str_nat (k + 1)\<rparr>])
               (Some (''s'' @ str_nat (k + 1)))
               (tr @ [Called (AddDockerHost (''h'' @ str_nat (k + 1)) ''dev_test'' (''10.0.0.'' @ str_nat (k + 1))) (Returned s1),
                      Called (AddSwitch (''s'' @ str_nat (k + 1))) (Returned s2),
                      Called (AddLinkNamedIfce (''s'' @ str_nat (k + 1)) (''h'' @ str_nat (k + 1)) ''20ms'' None) (Returned s3)])
             = (Inr hosts, tr')"
      by (auto simp: bindE_Inr backend_call_Inr ret_Inr Let_def)
    from Cons.IH [OF loop rest] obtain evs where
      "tr' = (tr @ [Called (AddDockerHost (''h'' @ str_nat (k + 1)) ''dev_test'' (''10.0.0.'' @ str_nat (k + 1))) (Returned s1),
                      Called (AddSwitch (''s'' @ str_nat (k + 1))) (Returned s2),
                      Called (AddLinkNamedIfce (''s'' @ str_nat (k + 1)) (''h'' @ str_nat (k + 1)) ''20ms'' None) (Returned s3)]) @ evs"
      "hosts = (hosts0 @ [\<lparr>name = ''h'' @ str_nat (k + 1), IP = ''10.0.0.'' @ str_nat (k + 1)\<rparr>])
          @ map (\<lambda>i. \<lparr>name = ''h'' @ str_nat (i + 1), IP = ''10.0.0.'' @ str_nat (i + 1)\<rparr>) [Suc k..<n]"
      "added_hosts evs = map (\<lambda>i. (''h'' @ str_nat (i + 1), ''10.0.0.'' @ str_nat (i + 1))) [Suc k..<n]"
      "added_switches evs = map (\<lambda>i. ''s'' @ str_nat (i + 1)) [Suc k..<n]"
      "added_links evs = concat (map hop_links [Suc k..<n])"
      by auto
    then show ?thesis using True unfolding upt
      by (simp add: hop_links_def [of 0])
  next
    case False
    with Cons.prems(1,3) ik obtain s1 s2 s3 s4 where
      loop: "topo_loop bk is (hosts0 @ [\<lparr>name = ''h'' @ str_nat (k + 1), IP = ''10.0.0.'' @ str_nat (k + 1)\<rparr>])
               (Some (''s'' @ str_nat (k + 1)))
               (tr @ [Called (AddDockerHost (''h'' @ str_nat (k + 1)) ''dev_test'' (''10.0.0.'' @ str_nat (k + 1))) (Returned s1),
                      Called (AddSwitch (''s'' @ str_nat (k + 1))) (Returned s2),
                      Called (AddLinkNamedIfce (''s'' @ str_nat (k + 1)) (''h'' @ str_nat (k + 1)) ''20ms'' None) (Returned s3),
                      Called (AddLinkNamedIfce (''s'' @ str_nat (k + 1)) (''s'' @ str_nat k) ''20ms'' (Some 20)) (Returned s4)])
             = (Inr hosts, tr')"
      by (auto simp: bindE_Inr backend_call_Inr ret_Inr Let_def)
    from Cons.IH [OF loop rest] obtain evs where
      "tr' = (tr @ [Called (AddDockerHost (''h'' @ str_nat (k + 1)) ''dev_test'' (''10.0.0.'' @ str_nat (k + 1))) (Returned s1),
                      Called (AddSwitch (''s'' @ str_nat (k + 1))) (Returned s2),
                      Called (AddLinkNamedIfce (''s'' @ str_nat (k + 1)) (''h'' @ str_nat (k + 1)) ''20ms'' None) (Returned s3),
                      Called (AddLinkNamedIfce (''s'' @ str_nat (k + 1)) (''s'' @ str_nat k) ''20ms'' (Some 20)) (Returned s4)]) @ evs"
      "hosts = (hosts0 @ [\<lparr>name = ''h'' @ str_nat (k + 1), IP = ''10.0.0.'' @ str_nat (k + 1)\<rparr>])
          @ map (\<lambda>i. \<lparr>name = ''h'' @ str_nat (i + 1), IP = ''10.0.0.'' @ str_nat (i + 1)\<rparr>) [Suc k..<n]"
      "added_hosts evs = map (\<lambda>i. (''h'' @ str_nat (i + 1), ''10.0.0.'' @ str_nat (i + 1))) [Suc k..<n]"
      "added_switches evs = map (\<lambda>i. ''s'' @ str_nat (i + 1)) [Suc k..<n]"
      "added_links evs = concat (map hop_links [Suc k..<n])"
      by auto
    then show ?thesis using False unfolding upt
      by (simp add: hop_links_def [of k])
  qed
qed

lemma lossless_hop_links:
  "filter (\<lambda>l. snd (snd (snd l)) = None) (concat (map hop_links is))
     = map (\<lambda>i. (''s'' @ str_nat (i + 1), ''h'' @ str_nat (i + 1), ''20ms'', None)) is"
  by (induction "is") (simp_all add: hop_links_def)

lemma lossy_hop_links:
  "filter (\<lambda>l. snd (snd (snd l)) \<noteq> None) (concat (map hop_links is))
     = map (\<lambda>i. (''s'' @ str_nat (i + 1), ''s'' @ str_nat i, ''20ms'', Some 20)) (filter (\<lambda>i. i \<noteq> 0) is)"
  by (induction "is") (simp_all add: hop_links_def)

lemma filter_nonzero_upt: "filter (\<lambda>i. i \<noteq> 0) [0..<n] = [1..<n]"
  by (induction n) auto

lemma lossy_hop_links_upt:
  "filter (\<lambda>l. snd (snd (snd l)) \<noteq> None) (concat (map hop_links [0..<n]))
     = map (\<lambda>i. (''s'' @ str_nat (i + 1), ''s'' @ str_nat i, ''20ms'', Some 20)) [1..<n]"
  unfolding lossy_hop_links filter_nonzero_upt ..

text \<open>
  C4. When \<open>create_topology\<close> returns the hosts for \<open>host_num \<ge> 5\<close>, the
  build added exactly \<open>host_num\<close> hosts, host \<open>i\<close> named \<open>h{i+1}\<close> with address
  \<open>10.0.0.{i+1}\<close>, \<open>host_num\<close> switches, \<open>host_num\<close> links without loss from
  switch to host with 20ms delay, and \<open>host_num - 1\<close> links between consecutive switches
  with 20ms delay and 20 percent loss.
\<close>

theorem topology_shape:
  assumes "5 \<le> host_num"
    and "create_topology bk host_num tr = (Inr (Some hosts), tr')"
  shows "\<exists>evs. tr' = tr @ evs
     \<and> hosts = map (\<lambda>i. \<lparr>name = ''h'' @ str_nat (i + 1), IP = ''10.0.0.'' @ str_nat (i + 1)\<rparr>)
                 [0..<nat host_num]
     \<and> added_hosts evs
         = map (\<lambda>i. (''h'' @ str_nat (i + 1), ''10.0.0.'' @ str_nat (i + 1))) [0..<nat host_num]
     \<and> added_switches evs = map (\<lambda>i. ''s'' @ str_nat (i + 1)) [0..<nat host_num]
     \<and> filter (\<lambda>l. snd (snd (snd l)) = None) (added_links evs)
         = map (\<lambda>i. (''s'' @ str_nat (i + 1), ''h'' @ str_nat (i + 1), ''20ms'', None))
             [0..<nat host_num]
     \<and> filter (\<lambda>l. snd (snd (snd l)) \<noteq> None) (added_links evs)
         = map (\<lambda>i. (''s'' @ str_nat (i + 1), ''s'' @ str_nat i, ''20ms'', Some 20))
             [1..<nat host_num]
     \<and> length hosts = nat host_num
     \<and> length (added_hosts evs) = nat host_num
     \<and> length (added_switches evs) = nat host_num
     \<and> length (filter (\<lambda>l. snd (snd (snd l)) = None) (added_links evs)) = nat host_num
     \<and> length (filter (\<lambda>l. snd (snd (snd l)) \<noteq> None) (added_links evs)) = nat host_num - 1"
proof -
  from assms obtain s tr1 where
    c0: "tr1 = tr @ [Called (AddController ''c0'') (Returned s)]"
    and loop: "topo_loop bk [0..<nat host_num] [] None tr1 = (Inr hosts, tr')"
    by (auto simp: create_topology_def try_except_def bindE_def backend_call_def ret_def
             split: prod.splits sum.splits outcome.splits if_splits)
  from topo_loop_Inr [OF loop refl] obtain evs where
    evs: "tr' = tr1 @ evs"
      "hosts = map (\<lambda>i. \<lparr>name = ''h'' @ str_nat (i + 1), IP = ''10.0.0.'' @ str_nat (i + 1)\<rparr>)
                 [0..<nat host_num]"
      "added_hosts evs
         = map (\<lambda>i. (''h'' @ str_nat (i + 1), ''10.0.0.'' @ str_nat (i + 1))) [0..<nat host_num]"
      "added_switches evs = map (\<lambda>i. ''s'' @ str_nat (i + 1)) [0..<nat host_num]"
      "added_links evs = concat (map hop_links [0..<nat host_num])"
    by auto
  let ?evs = "Called (AddController ''c0'') (Returned s) # evs"
  have "tr' = tr @ ?evs" using c0 evs(1) by simp
  moreover have "added_hosts ?evs = added_hosts evs" "added_switches ?evs = added_switches evs"
    "added_links ?evs = added_links evs"
    by simp_all
  ultimately show ?thesis
    using evs(2-5) lossless_hop_links [of "[0..<nat host_num]"]
      lossy_hop_links_upt [of "nat host_num"]
    by (intro exI [of _ ?evs]) simp
qed

theorem topology_shape_witness:
  "(5::int) \<le> 5
   \<and> fst (create_topology backend_ok 5 [])
       = Inr (Some [\<lparr>name = ''h1'', IP = ''10.0.0.1''\<rparr>, \<lparr>name = ''h2'', IP = ''10.0.0.2''\<rparr>,
                    \<lparr>name = ''h3'', IP = ''10.0.0.3''\<rparr>, \<lparr>name = ''h4'', IP = ''10.0.0.4''\<rparr>,
                    \<lparr>name = ''h5'', IP = ''10.0.0.5''\<rparr>])
   \<and> length (added_hosts (snd (create_topology backend_ok 5 []))) = 5
   \<and> length (added_switches (snd (create_topology backend_ok 5 []))) = 5
   \<and> length (filter (\<lambda>l. snd (snd (snd l)) = None)
               (added_links (snd (create_topology backend_ok 5 [])))) = 5
   \<and> length (filter (\<lambda>l. snd (snd (snd l)) \<noteq> None)
               (added_links (snd (create_topology backend_ok 5 [])))) = 4"
proof -
  have run: "fst (create_topology backend_ok 5 [])
       = Inr (Some [\<lparr>name = ''h1'', IP = ''10.0.0.1''\<rparr>, \<lparr>name = ''h2'', IP = ''10.0.0.2''\<rparr>,
                    \<lparr>name = ''h3'', IP = ''10.0.0.3''\<rparr>, \<lparr>name = ''h4'', IP = ''10.0.0.4''\<rparr>,
                    \<lparr>name = ''h5'', IP = ''10.0.0.5''\<rparr>])"
    by code_simp
  then have "create_topology backend_ok 5 []
       = (Inr (Some [\<lparr>name = ''h1'', IP = ''10.0.0.1''\<rparr>, \<lparr>name = ''h2'', IP = ''10.0.0.2''\<rparr>,
                    \<lparr>name = ''h3'', IP = ''10.0.0.3''\<rparr>, \<lparr>name = ''h4'', IP = ''10.0.0.4''\<rparr>,
                    \<lparr>name = ''h5'', IP = ''10.0.0.5''\<rparr>]), snd (create_topology backend_ok 5 []))"
    by (simp add: prod_eq_iff)
  from topology_shape [OF _ this] run show ?thesis by auto
qed

section \<open>Flow rules\<close>

lemma installed_rules_append:
  "installed_rules sw (tr @ evs) = foldl (installed_step sw) (installed_rules sw tr) evs"
  by (simp add: installed_rules_def)

lemma add_ovs_flows_body_Inr:
  assumes "add_ovs_flows_body bk i tr = (Inr u, tr')"
  shows "(\<forall>sw. sw \<noteq> i + 1 \<longrightarrow> installed_rules sw tr' = installed_rules sw tr)
     \<and> length (installed_rules (i + 1) tr') = (if i = 0 then 1 else 2)"
  using assms
  by (auto simp: add_ovs_flows_body_def check_output_def get_ofport_def bindE_Inr
        backend_call_Inr ret_Inr installed_rules_append split: if_splits)

lemma add_ovs_flows_loop_Inr:
  "for_each is (add_ovs_flows_body bk) tr = (Inr u, tr') \<Longrightarrow> distinct is \<Longrightarrow>
   (\<forall>sw. (\<forall>i\<in>set is. sw \<noteq> i + 1) \<longrightarrow> installed_rules sw tr' = installed_rules sw tr)
   \<and> (\<forall>i\<in>set is. length (installed_rules (i + 1) tr') = (if i = 0 then 1 else 2))"
proof (induction "is" arbitrary: tr)
  case Nil
  then show ?case by (simp add: ret_Inr)
next
  case (Cons i "is")
  from Cons.prems(1) obtain tr1 where
    body: "add_ovs_flows_body bk i tr = (Inr (), tr1)"
    and loop: "for_each is (add_ovs_flows_body bk) tr1 = (Inr u, tr')"
    by (auto simp: bindE_Inr)
  from Cons.prems(2) have d: "distinct is" and ni: "i \<notin> set is" by simp_all
  note b = add_ovs_flows_body_Inr [OF body]
  note l = Cons.IH [OF loop d]
  have "\<forall>j\<in>set is. i + 1 \<noteq> j + 1" using ni by auto
  with l have "installed_rules (i + 1) tr' = installed_rules (i + 1) tr1" by blast
  with b have here: "length (installed_rules (i + 1) tr') = (if i = 0 then 1 else 2)" by simp
  have other: "\<forall>sw. (\<forall>j\<in>set (i # is). sw \<noteq> j + 1) \<longrightarrow> installed_rules sw tr' = installed_rules sw tr"
    using b l by simp
  show ?case using here other l by simp
qed

text \<open>
  C5, amended. When \<open>add_ovs_flows\<close> returns, whatever rules the switches held
  before: the switch at index 0 holds exactly 1 rule and every switch at index
  \<open>0 < i < switch_num - 1\<close> exactly 2, so the old rules of a switch were flushed
  before its rules were installed; the switches outside \<open>[0, switch_num - 1)\<close>, the
  last one among them, are left as they were; and a second call leaves the number of
  rules of every switch unchanged. The switch at index \<open>i\<close> is number \<open>i + 1\<close>.
\<close>

theorem flow_rules_installed:
  assumes "add_ovs_flows bk switch_num tr = (Inr (), tr')"
  shows "(\<forall>i. int i < switch_num - 1 \<longrightarrow>
            length (installed_rules (i + 1) tr') = (if i = 0 then 1 else 2))
     \<and> (\<forall>sw. sw = 0 \<or> switch_num \<le> int sw \<longrightarrow> installed_rules sw tr' = installed_rules sw tr)
     \<and> (\<forall>tr''. add_ovs_flows bk switch_num tr' = (Inr (), tr'') \<longrightarrow>
            (\<forall>sw. length (installed_rules sw tr'') = length (installed_rules sw tr')))"
proof -
  have once: "(\<forall>i. int i < switch_num - 1 \<longrightarrow>
            length (installed_rules (i + 1) t') = (if i = 0 then 1 else 2))
     \<and> (\<forall>sw. sw = 0 \<or> switch_num \<le> int sw \<longrightarrow> installed_rules sw t' = installed_rules sw t)"
    if "add_ovs_flows bk switch_num t = (Inr (), t')" for t t'
  proof -
    from that have "for_each [0..<nat (switch_num - 1)] (add_ovs_flows_body bk) t = (Inr (), t')"
      by (simp add: add_ovs_flows_def)
    from add_ovs_flows_loop_Inr [OF this]
    have l: "\<And>sw. (\<forall>i\<in>set [0..<nat (switch_num - 1)]. sw \<noteq> i + 1) \<Longrightarrow>
                installed_rules sw t' = installed_rules sw t"
      and r: "\<And>i. i \<in> set [0..<nat (switch_num - 1)] \<Longrightarrow>
                length (installed_rules (i + 1) t') = (if i = 0 then 1 else 2)"
      by simp_all
    have "installed_rules sw t' = installed_rules sw t" if "sw = 0 \<or> switch_num \<le> int sw" for sw
    proof (rule l)
      show "\<forall>i\<in>set [0..<nat (switch_num - 1)]. sw \<noteq> i + 1"
        using that by auto
    qed
    moreover have "length (installed_rules (i + 1) t') = (if i = 0 then 1 else 2)"
      if "int i < switch_num - 1" for i
      using that by (intro r) simp
    ultimately show ?thesis by blast
  qed
  have twice: "length (installed_rules sw tr'') = length (installed_rules sw tr')"
    if "add_ovs_flows bk switch_num tr' = (Inr (), tr'')" for tr'' sw
  proof (cases "sw = 0 \<or> switch_num \<le> int sw")
    case True
    with once [OF that] have "installed_rules sw tr'' = installed_rules sw tr'" by blast
    then show ?thesis by simp
  next
    case False
    then have "int (sw - 1) < switch_num - 1" and "sw - 1 + 1 = sw" by auto
    with once [OF that] once [OF assms] show ?thesis by metis
  qed
  from once [OF assms] twice show ?thesis by blast
qed

text \<open>
  The claim as stated fails at the last switch: with 5 switches, the switch at index 4
  (number 5) is given no rule at all.
\<close>

theorem flow_rules_last_switch_counterexample:
  "fst (add_ovs_flows backend_ok 5 []) = Inr ()
   \<and> installed_rules 5 (snd (add_ovs_flows backend_ok 5 [])) = []
   \<and> length (installed_rules 5 (snd (add_ovs_flows backend_ok 5 []))) \<noteq> 2"
  by code_simp

theorem flow_rules_installed_witness:
  "fst (add_ovs_flows backend_ok 5 trace_old_rule) = Inr ()
   \<and> length (installed_rules 1 (snd (add_ovs_flows backend_ok 5 trace_old_rule))) = 1
   \<and> length (installed_rules 2 (snd (add_ovs_flows backend_ok 5 trace_old_rule))) = 2
   \<and> length (installed_rules 4 (snd (add_ovs_flows backend_ok 5 trace_old_rule))) = 2
   \<and> installed_rules 5 (snd (add_ovs_flows backend_ok 5 trace_old_rule)) = []
   \<and> length (installed_rules 2
        (snd (add_ovs_flows backend_ok 5 (snd (add_ovs_flows backend_ok 5 trace_old_rule))))) = 2"
proof -
  let ?t1 = "snd (add_ovs_flows backend_ok 5 trace_old_rule)"
  let ?t2 = "snd (add_ovs_flows backend_ok 5 ?t1)"
  have f1: "fst (add_ovs_flows backend_ok 5 trace_old_rule) = Inr ()" by code_simp
  have f2: "fst (add_ovs_flows backend_ok 5 ?t1) = Inr ()" by code_simp
  have e1: "add_ovs_flows backend_ok 5 trace_old_rule = (Inr (), ?t1)"
    using f1 by (simp add: prod_eq_iff)
  have e2: "add_ovs_flows backend_ok 5 ?t1 = (Inr (), ?t2)"
    using f2 by (simp add: prod_eq_iff)
  have old: "installed_rules 5 trace_old_rule = []" by code_simp
  note w = flow_rules_installed [OF e1]
  from w have a: "\<And>i. int i < 5 - 1 \<Longrightarrow> length (installed_rules (i + 1) ?t1) = (if i = 0 then 1 else 2)"
    by blast
  from w have b: "installed_rules 5 ?t1 = installed_rules 5 trace_old_rule" by simp
  from w e2 have c: "length (installed_rules 2 ?t2) = length (installed_rules 2 ?t1)" by blast
  have r1: "length (installed_rules 1 ?t1) = 1" using a [of 0] by simp
  have r2: "length (installed_rules 2 ?t1) = 2" using a [of 1] by (simp add: numeral_2_eq_2)
  have r4: "length (installed_rules 4 ?t1) = 2" using a [of 3] by simp
  from r1 r2 r4 b c old f1 show ?thesis by simp
qed

section \<open>The sweep\<close>

lemma bindE_ret: "bindE (ret x) f = f x"
  by (rule ext) (simp add: bindE_def ret_def)

lemma bindE_ret_unit: "bindE m ret = (m :: unit prog)"
  by (rule ext) (auto simp: bindE_def ret_def split: prod.splits sum.splits)

lemma build_action_map_recode:
  "i < nat relay_num \<Longrightarrow>
   build_action_map relay_num False i = ret ((replicate (nat relay_num) ''forward'')[i := ''recode''])"
  by (simp add: build_action_map_def)

lemma build_action_map_all_forward:
  "build_action_map relay_num True i = ret (replicate (nat relay_num) ''forward'')"
  by (simp add: build_action_map_def)

lemma sweep_loop_recode:
  "\<forall>i\<in>set is. i < nat relay_num \<Longrightarrow>
   sweep_loop bk ss ml False hosts r relay_num conf is
     = for_each is (\<lambda>k. sweep_variant bk ss ml hosts r relay_num conf
                          ((replicate (nat relay_num) ''forward'')[k := ''recode'']))"
  by (induction "is") (simp_all add: build_action_map_recode bindE_ret)

lemma sweep_loop_all_forward:
  "sweep_loop bk ss ml True hosts r relay_num conf (i # is)
     = sweep_variant bk ss ml hosts r relay_num conf (replicate (nat relay_num) ''forward'')"
  by (simp add: build_action_map_all_forward bindE_ret bindE_ret_unit)

text \<open>
  C6. Without \<open>ALL_FOWARD\<close>, the action map built for step \<open>k < relay_num\<close> has
  \<open>recode\<close> at position \<open>k\<close> and \<open>forward\<close> at every other position, and the
  sweep runs one variant per step, in order, each with that map. With \<open>ALL_FOWARD\<close>,
  the map is \<open>forward\<close> everywhere, \<open>recode\<close> does not occur in it, and for any
  \<open>relay_num > 0\<close> the whole loop is the single variant of its first iteration. The
  run calls the loop with \<open>relay_num = host_num - 4\<close>.
\<close>

theorem sweep_action_maps:
  "(k < nat relay_num \<longrightarrow>
      build_action_map relay_num False k tr
        = (Inr ((replicate (nat relay_num) ''forward'')[k := ''recode'']), tr)
      \<and> length ((replicate (nat relay_num) ''forward'')[k := ''recode'']) = nat relay_num
      \<and> (replicate (nat relay_num) ''forward'')[k := ''recode''] ! k = ''recode''
      \<and> (\<forall>j. j < nat relay_num \<and> j \<noteq> k \<longrightarrow>
            (replicate (nat relay_num) ''forward'')[k := ''recode''] ! j = ''forward''))
   \<and> sweep_loop bk ss ml False hosts r relay_num conf [0..<nat relay_num]
       = for_each [0..<nat relay_num]
           (\<lambda>k. sweep_variant bk ss ml hosts r relay_num conf
                  ((replicate (nat relay_num) ''forward'')[k := ''recode'']))
   \<and> build_action_map relay_num True k tr = (Inr (replicate (nat relay_num) ''forward''), tr)
   \<and> ''recode'' \<notin> set (replicate (nat relay_num) ''forward'')
   \<and> (0 < relay_num \<longrightarrow>
        sweep_loop bk ss ml True hosts r relay_num conf [0..<nat relay_num]
          = sweep_variant bk ss ml hosts r relay_num conf (replicate (nat relay_num) ''forward''))
   \<and> run_body bk ss ml all_forward host_num PROFILES_mobile_recoder_deterministic conf hosts
       = bindE (backend_call bk NetStart)
          (\<lambda>_. bindE (add_ovs_flows bk host_num)
          (\<lambda>_. bindE (disable_cksum_offload bk host_num)
          (\<lambda>_. sweep_loop bk ss ml all_forward hosts 2 (host_num - 4) conf
                 [0..<nat (host_num - 4)])))"
proof -
  have "sweep_loop bk ss ml True hosts r relay_num conf [0..<nat relay_num]
          = sweep_variant bk ss ml hosts r relay_num conf (replicate (nat relay_num) ''forward'')"
    if "0 < relay_num"
  proof -
    from that have "[0..<nat relay_num] = 0 # [1..<nat relay_num]"
      by (simp add: upt_conv_Cons)
    then show ?thesis by (simp only: sweep_loop_all_forward)
  qed
  moreover have "sweep_loop bk ss ml False hosts r relay_num conf [0..<nat relay_num]
       = for_each [0..<nat relay_num]
           (\<lambda>k. sweep_variant bk ss ml hosts r relay_num conf
                  ((replicate (nat relay_num) ''forward'')[k := ''recode'']))"
    by (rule sweep_loop_recode) simp
  moreover have "run_body bk ss ml all_forward host_num PROFILES_mobile_recoder_deterministic conf hosts
       = bindE (backend_call bk NetStart)
          (\<lambda>_. bindE (add_ovs_flows bk host_num)
          (\<lambda>_. bindE (disable_cksum_offload bk host_num)
          (\<lambda>_. sweep_loop bk ss ml all_forward hosts 2 (host_num - 4) conf
                 [0..<nat (host_num - 4)])))"
    by (simp add: run_body_def Let_def)
  ultimately show ?thesis
    by (simp add: build_action_map_all_forward build_action_map_recode ret_def)
qed

theorem sweep_action_maps_witness:
  "build_action_map 3 False 1 [] = (Inr [''forward'', ''recode'', ''forward''], [])
   \<and> build_action_map 3 True 1 [] = (Inr [''forward'', ''forward'', ''forward''], [])
   \<and> sweep_loop backend_ok 100 10 True None 2 3 Map.empty [0..<nat 3]
       = sweep_variant backend_ok 100 10 None 2 3 Map.empty (replicate (nat 3) ''forward'')"
proof -
  have c: "(replicate (nat 3) ''forward'')[1 := ''recode''] = [''forward'', ''recode'', ''forward'']"
    by code_simp
  have d: "replicate (nat 3) ''forward'' = [''forward'', ''forward'', ''forward'']"
    by code_simp
  from sweep_action_maps [of 1 3 "[]" backend_ok 100 10 None 2 Map.empty]
  show ?thesis using c d by simp
qed

section \<open>The traffic driver\<close>

lemma str_int_port: "str_int 9999 = ''9999''"
  by (simp add: str_int_def str_nat.simps)

lemma str_int_interval: "str_int 1 = ''1''"
  by (simp add: str_int_def str_nat.simps)

lemma iperf_clt_cmd_text:
  "iperf_clt_cmd (iperf_client_para ss ml h_srv proto time)
     = ''iperf -c '' @ IP h_srv @ '' -p 9999 -t '' @ str_int time @ '' -i 1 -b 50K -l ''
         @ str_int (ss - ml) @ '' -u ''
         @ (if proto = ''UDP'' \<or> proto = ''udp'' then [] else ''> /dev/null 2>&1 &'')"
  by (simp add: iperf_clt_cmd_def iperf_client_para_def str_int_port str_int_interval)

lemma run_iperf_test_steps:
  "run_iperf_test bk ss ml h_clt h_srv proto time print_clt_log tr =
     (let para = iperf_client_para ss ml h_srv proto time;
          srv = HostCmd (name h_srv) (iperf_srv_cmd para);
          clt = HostCmd (name h_clt) (iperf_clt_cmd para);
          cat = HostCmd (name h_srv) ''cat /tmp/iperf_server.log''
      in case bk tr srv of
           Raised \<Rightarrow> (Inl (BackendError srv), tr @ [Called srv Raised])
         | Returned s \<Rightarrow>
             (let tr2 = tr @ [Called srv (Returned s),
                              Printed (''Iperf client command: '' @ iperf_clt_cmd para)]
              in case bk tr2 clt of
                   Raised \<Rightarrow> (Inl (BackendError clt), tr2 @ [Called clt Raised])
                 | Returned r \<Rightarrow>
                     (case bk (tr2 @ [Called clt (Returned r)]) cat of
                        Raised \<Rightarrow> (Inl (BackendError cat),
                                    tr2 @ [Called clt (Returned r), Called cat Raised])
                      | Returned l \<Rightarrow>
                          (Inr (), tr2 @ [Called clt (Returned r), Called cat (Returned l), Printed l]
                                     @ (if print_clt_log then [Printed r] else [])))))"
  unfolding run_iperf_test_def Let_def bindE_def backend_call_def print_def ret_def
  by (simp split: outcome.splits)

lemma run_iperf_test_client:
  assumes "bk tr (HostCmd (name h_srv) (iperf_srv_cmd (iperf_client_para ss ml h_srv proto time)))
             = Returned s"
  shows "\<exists>r rest. snd (run_iperf_test bk ss ml h_clt h_srv proto time print_clt_log tr)
     = tr @ [Called (HostCmd (name h_srv) (iperf_srv_cmd (iperf_client_para ss ml h_srv proto time)))
               (Returned s),
             Printed (''Iperf client command: ''
                        @ iperf_clt_cmd (iperf_client_para ss ml h_srv proto time)),
             Called (HostCmd (name h_clt) (iperf_clt_cmd (iperf_client_para ss ml h_srv proto time))) r]
           @ rest"
  unfolding run_iperf_test_steps Let_def using assms
  by (simp split: outcome.splits)

text \<open>
  C8. Whatever the protocol, the \<open>length\<close> entry of the client parameters is
  \<open>str(SYMBOL_SIZE - META_DATA_LEN)\<close>, it is the \<open>-l\<close> argument of the client
  command, and that command is the one given to the client host whenever the server
  was started.
\<close>

theorem iperf_payload_length:
  "para_length (iperf_client_para ss ml h_srv proto time) = str_int (ss - ml)
   \<and> iperf_clt_cmd (iperf_client_para ss ml h_srv proto time)
       = ''iperf -c '' @ IP h_srv @ '' -p 9999 -t '' @ str_int time @ '' -i 1 -b 50K -l ''
           @ str_int (ss - ml) @ '' -u ''
           @ (if proto = ''UDP'' \<or> proto = ''udp'' then [] else ''> /dev/null 2>&1 &'')
   \<and> (bk tr (HostCmd (name h_srv) (iperf_srv_cmd (iperf_client_para ss ml h_srv proto time)))
         = Returned s \<longrightarrow>
       (\<exists>r rest. snd (run_iperf_test bk ss ml h_clt h_srv proto time print_clt_log tr)
          = tr @ [Called (HostCmd (name h_srv)
                            (iperf_srv_cmd (iperf_client_para ss ml h_srv proto time))) (Returned s),
                  Printed (''Iperf client command: ''
                             @ iperf_clt_cmd (iperf_client_para ss ml h_srv proto time)),
                  Called (HostCmd (name h_clt)
                            (iperf_clt_cmd (iperf_client_para ss ml h_srv proto time))) r]
                @ rest))"
proof (intro conjI impI)
  show "para_length (iperf_client_para ss ml h_srv proto time) = str_int (ss - ml)"
    by (simp add: iperf_client_para_def Let_def)
qed (rule iperf_clt_cmd_text, rule run_iperf_test_client)

lemma str_int_90: "str_int (100 - 10) = ''90''"
  by (simp add: str_int_def str_nat.simps)

theorem iperf_payload_length_witness:
  "para_length (iperf_client_para 100 10 \<lparr>name = ''h7'', IP = ''10.0.0.7''\<rparr> ''tcp'' 30) = ''90''
   \<and> para_length (iperf_client_para 100 10 \<lparr>name = ''h7'', IP = ''10.0.0.7''\<rparr> ''udp'' 30) = ''90''
   \<and> (\<exists>r rest.
         snd (run_iperf_test backend_ok 100 10 \<lparr>name = ''h1'', IP = ''10.0.0.1''\<rparr>
                \<lparr>name = ''h7'', IP = ''10.0.0.7''\<rparr> ''udp'' 30 False [])
           = [Called (HostCmd ''h7'' ''iperf -s -p 9999 -i 1 -u > /tmp/iperf_server.log 2>&1 &'')
                (Returned ''1''),
              Printed ''Iperf client command: iperf -c 10.0.0.7 -p 9999 -t 30 -i 1 -b 50K -l 90 -u '',
              Called (HostCmd ''h1'' ''iperf -c 10.0.0.7 -p 9999 -t 30 -i 1 -b 50K -l 90 -u '') r]
             @ rest)"
proof -
  have t: "str_int 30 = ''30''" by (simp add: str_int_def str_nat.simps)
  have srv: "iperf_srv_cmd (iperf_client_para 100 10 \<lparr>name = ''h7'', IP = ''10.0.0.7''\<rparr> ''udp'' 30)
      = ''iperf -s -p 9999 -i 1 -u > /tmp/iperf_server.log 2>&1 &''"
    by (simp add: iperf_srv_cmd_def iperf_client_para_def)
  have bk: "backend_ok [] (HostCmd (name \<lparr>name = ''h7'', IP = ''10.0.0.7''\<rparr>)
      (iperf_srv_cmd (iperf_client_para 100 10 \<lparr>name = ''h7'', IP = ''10.0.0.7''\<rparr> ''udp'' 30)))
      = Returned ''1''"
    by (simp add: backend_ok_def)
  note w1 = iperf_payload_length [of 100 10 "\<lparr>name = ''h7'', IP = ''10.0.0.7''\<rparr>" "''tcp''" 30
      backend_ok "[]" "''1''" "\<lparr>name = ''h1'', IP = ''10.0.0.1''\<rparr>" False]
  note w2 = iperf_payload_length [of 100 10 "\<lparr>name = ''h7'', IP = ''10.0.0.7''\<rparr>" "''udp''" 30
      backend_ok "[]" "''1''" "\<lparr>name = ''h1'', IP = ''10.0.0.1''\<rparr>" False]
  from w1 have a: "para_length (iperf_client_para 100 10 \<lparr>name = ''h7'', IP = ''10.0.0.7''\<rparr> ''tcp'' 30) = ''90''"
    using str_int_90 by simp
  from w2 have b: "para_length (iperf_client_para 100 10 \<lparr>name = ''h7'', IP = ''10.0.0.7''\<rparr> ''udp'' 30) = ''90''"
    using str_int_90 by simp
  from w2 have cmd: "iperf_clt_cmd (iperf_client_para 100 10 \<lparr>name = ''h7'', IP = ''10.0.0.7''\<rparr> ''udp'' 30)
      = ''iperf -c 10.0.0.7 -p 9999 -t 30 -i 1 -b 50K -l 90 -u ''"
    using str_int_90 t by simp
  from w2 bk have "\<exists>r rest.
         snd (run_iperf_test backend_ok 100 10 \<lparr>name = ''h1'', IP = ''10.0.0.1''\<rparr>
                \<lparr>name = ''h7'', IP = ''10.0.0.7''\<rparr> ''udp'' 30 False [])
           = [] @ [Called (HostCmd (name \<lparr>name = ''h7'', IP = ''10.0.0.7''\<rparr>)
                            (iperf_srv_cmd (iperf_client_para 100 10 \<lparr>name = ''h7'', IP = ''10.0.0.7''\<rparr> ''udp'' 30))) (Returned ''1''),
                  Printed (''Iperf client command: ''
                             @ iperf_clt_cmd (iperf_client_para 100 10 \<lparr>name = ''h7'', IP = ''10.0.0.7''\<rparr> ''udp'' 30)),
                  Called (HostCmd (name \<lparr>name = ''h1'', IP = ''10.0.0.1''\<rparr>)
                            (iperf_clt_cmd (iperf_client_para 100 10 \<lparr>name = ''h7'', IP = ''10.0.0.7''\<rparr> ''udp'' 30))) r]
             @ rest"
    by blast
  then have c: "\<exists>r rest.
         snd (run_iperf_test backend_ok 100 10 \<lparr>name = ''h1'', IP = ''10.0.0.1''\<rparr>
                \<lparr>name = ''h7'', IP = ''10.0.0.7''\<rparr> ''udp'' 30 False [])
           = [Called (HostCmd ''h7'' ''iperf -s -p 9999 -i 1 -u > /tmp/iperf_server.log 2>&1 &'')
                (Returned ''1''),
              Printed ''Iperf client command: iperf -c 10.0.0.7 -p 9999 -t 30 -i 1 -b 50K -l 90 -u '',
              Called (HostCmd ''h1'' ''iperf -c 10.0.0.7 -p 9999 -t 30 -i 1 -b 50K -l 90 -u '') r]
             @ rest"
    unfolding srv cmd by simp
  from a b c show ?thesis by blast
qed





section \<open>Deployment of the coders\<close>

lemma subscript_Inr:
  "subscript xs i tr = (Inr x, tr') \<longleftrightarrow> py_index xs i = Some x \<and> tr' = tr"
  by (auto simp: subscript_def throw_def ret_def split: option.splits)

lemma py_index_nonneg:
  "0 \<le> i \<Longrightarrow> py_index xs i = (if nat i < length xs then Some (xs ! nat i) else None)"
  by (auto simp: py_index_def)

lemma sleep_Inr: "sleep n tr = (Inr u, tr') \<longleftrightarrow> 0 \<le> n \<and> tr' = tr @ [Slept n]"
  by (auto simp: sleep_def)

lemma relay_loop_Inr:
  "relay_loop bk hosts am is recs tr = (Inr recs', tr') \<Longrightarrow> \<forall>i\<in>set is. 2 \<le> i \<Longrightarrow>
   \<exists>evs. tr' = tr @ evs
     \<and> list_all2 returned (map (relay_call hosts am) is) evs
     \<and> recs' = recs @ map (\<lambda>i. ''recoder_on_h'' @ str_int (i + 1)) is
     \<and> (\<forall>i\<in>set is. nat i < length hosts \<and> nat (i - 2) < length am)"
proof (induction "is" arbitrary: recs tr)
  case Nil
  then show ?case by (simp add: ret_Inr)
next
  case (Cons i "is")
  from Cons.prems(2) have i2: "2 \<le> i" and rest: "\<forall>j\<in>set is. 2 \<le> j" by simp_all
  from Cons.prems(1) i2 obtain s where
    am: "nat (i - 2) < length am" and hs: "nat i < length hosts"
    and loop: "relay_loop bk hosts am is (recs @ [''recoder_on_h'' @ str_int (i + 1)])
                 (tr @ [Called (relay_call hosts am i) (Returned s)]) = (Inr recs', tr')"
    by (auto simp: bindE_Inr subscript_Inr backend_call_Inr py_index_nonneg relay_call_def
             split: if_splits)
  from Cons.IH [OF loop rest] obtain evs where
    "tr' = (tr @ [Called (relay_call hosts am i) (Returned s)]) @ evs"
    "list_all2 returned (map (relay_call hosts am) is) evs"
    "recs' = (recs @ [''recoder_on_h'' @ str_int (i + 1)])
               @ map (\<lambda>i. ''recoder_on_h'' @ str_int (i + 1)) is"
    "\<forall>i\<in>set is. nat i < length hosts \<and> nat (i - 2) < length am"
    by blast
  with am hs show ?case
    by (intro exI [of _ "Called (relay_call hosts am i) (Returned s) # evs"]) simp
qed

lemma py_range_set: "set (py_range a b) = {i. a \<le> i \<and> i < b}"
proof -
  have "i \<in> (\<lambda>k. a + int k) ` {0..<nat (b - a)} \<longleftrightarrow> a \<le> i \<and> i < b" for i
  proof
    assume "i \<in> (\<lambda>k. a + int k) ` {0..<nat (b - a)}"
    then show "a \<le> i \<and> i < b" by auto
  next
    assume "a \<le> i \<and> i < b"
    then have "i = a + int (nat (i - a))" and "nat (i - a) \<in> {0..<nat (b - a)}" by auto
    then show "i \<in> (\<lambda>k. a + int k) ` {0..<nat (b - a)}" by (rule image_eqI)
  qed
  then show ?thesis by (auto simp: py_range_def)
qed

lemma py_range_length: "length (py_range a (a + n)) = nat n"
  by (simp add: py_range_def)

lemma py_index_second_last:
  "py_index xs (- 2) = (if 2 \<le> length xs then Some (xs ! (length xs - 2)) else None)"
proof -
  have "nat (int (length xs) + - 2) = length xs - 2" by simp
  then show ?thesis by (auto simp: py_index_def)
qed

lemma deploy_coders_Inr:
  assumes "deploy_coders bk (Some hosts) rec_st_idx relay_num action_map tr = (Inr coders, tr')"
    and "2 \<le> rec_st_idx"
  shows "\<exists>relays e_dec e_enc.
       tr' = tr @ relays @ [Slept relay_num, e_dec, e_enc]
     \<and> list_all2 returned
          (map (relay_call hosts action_map) (py_range rec_st_idx (rec_st_idx + relay_num))) relays
     \<and> returned (AddContainer ''decoder'' (name (hosts ! (length hosts - 2))) ''nc_coder''
                   (''python3 ./decoder.py h'' @ str_int (int (length hosts) - 1)
                      @ ''-s'' @ str_int (int (length hosts) - 1)) 3) e_dec
     \<and> returned (AddContainer ''encoder'' (name (hosts ! 1)) ''nc_coder''
                   ''python3 ./encoder.py h2-s2'' 3) e_enc
     \<and> coders = (''encoder'', ''decoder'',
                  map (\<lambda>i. ''recoder_on_h'' @ str_int (i + 1))
                    (py_range rec_st_idx (rec_st_idx + relay_num)))
     \<and> 0 \<le> relay_num \<and> 2 \<le> length hosts
     \<and> (\<forall>i\<in>set (py_range rec_st_idx (rec_st_idx + relay_num)).
           nat i < length hosts \<and> nat (i - 2) < length action_map)"
proof -
  let ?is = "py_range rec_st_idx (rec_st_idx + relay_num)"
  from assms(1) obtain recs tr1 s_dec s_enc where
    loop: "relay_loop bk hosts action_map ?is [] tr = (Inr recs, tr1)"
    and n0: "0 \<le> relay_num" and len: "2 \<le> length hosts"
    and tr': "tr' = tr1 @ [Slept relay_num,
        Called (AddContainer ''decoder'' (name (hosts ! (length hosts - 2))) ''nc_coder''
                   (''python3 ./decoder.py h'' @ str_int (int (length hosts) - 1)
                      @ ''-s'' @ str_int (int (length hosts) - 1)) 3) (Returned s_dec),
        Called (AddContainer ''encoder'' (name (hosts ! 1)) ''nc_coder''
                   ''python3 ./encoder.py h2-s2'' 3) (Returned s_enc)]"
    and coders: "coders = (''encoder'', ''decoder'', recs)"
    by (auto simp: deploy_coders_def bindE_Inr sleep_Inr subscript_Inr backend_call_Inr ret_Inr
          py_index_second_last py_index_nonneg split: if_splits)
  have "\<forall>i\<in>set ?is. 2 \<le> i" using assms(2) by (simp add: py_range_set)
  from relay_loop_Inr [OF loop this] obtain evs where
    "tr1 = tr @ evs" "list_all2 returned (map (relay_call hosts action_map) ?is) evs"
    "recs = map (\<lambda>i. ''recoder_on_h'' @ str_int (i + 1)) ?is"
    "\<forall>i\<in>set ?is. nat i < length hosts \<and> nat (i - 2) < length action_map"
    by auto
  with tr' coders n0 len show ?thesis
    by (intro exI [of _ evs] exI [of _ "Called c (Returned s)" for c s]) simp
qed

lemma bindE_Inl: "fst (m tr) = Inl e \<Longrightarrow> fst (bindE m f tr) = Inl e"
  by (cases "m tr") (auto simp: bindE_def)

lemma relay_loop_IndexError:
  "\<forall>t c. bk t c \<noteq> Raised \<Longrightarrow> \<forall>i\<in>set is. 2 \<le> i \<and> nat i < length hosts \<Longrightarrow>
   \<exists>j\<in>set is. \<not> nat (j - 2) < length am \<Longrightarrow>
   fst (relay_loop bk hosts am is recs tr) = Inl IndexError"
proof (induction "is" arbitrary: recs tr)
  case Nil
  then show ?case by simp
next
  case (Cons i "is")
  from Cons.prems(2) have i2: "0 \<le> i - 2" and i0: "0 \<le> i" and hs: "nat i < length hosts"
    by simp_all
  show ?case
  proof (cases "nat (i - 2) < length am")
    case False
    then have "subscript am (i - 2) tr = (Inl IndexError, tr)"
      using i2 by (simp add: subscript_def py_index_nonneg throw_def)
    then show ?thesis by (simp add: bindE_def)
  next
    case True
    with Cons.prems(3) have ex: "\<exists>j\<in>set is. \<not> nat (j - 2) < length am" by auto
    from Cons.prems(2) have rest: "\<forall>j\<in>set is. 2 \<le> j \<and> nat j < length hosts" by simp
    let ?c = "AddContainer (''recoder_on_h'' @ str_int (i + 1)) (name (hosts ! nat i)) ''nc_coder''
                (''python3 ./recoder.py '' @ ''h'' @ str_int (i + 1) @ ''-s'' @ str_int (i + 1)
                   @ '' --action '' @ am ! nat (i - 2)) 3"
    from Cons.prems(1) obtain s where s: "bk tr ?c = Returned s"
      by (meson outcome.exhaust)
    have "relay_loop bk hosts am (i # is) recs tr
        = relay_loop bk hosts am is (recs @ [''recoder_on_h'' @ str_int (i + 1)])
            (tr @ [Called ?c (Returned s)])"
      using True hs i2 i0 s
      by (simp add: bindE_def subscript_def py_index_nonneg ret_def backend_call_def)
    with Cons.IH [OF Cons.prems(1) rest ex] show ?thesis by simp
  qed
qed

lemma deploy_coders_IndexError:
  assumes "\<forall>t c. bk t c \<noteq> Raised" and "2 < rec_st_idx"
    and "relay_num = int (length action_map)" and "0 < relay_num"
    and "rec_st_idx + relay_num \<le> int (length hosts)"
  shows "fst (deploy_coders bk (Some hosts) rec_st_idx relay_num action_map tr) = Inl IndexError"
proof -
  let ?is = "py_range rec_st_idx (rec_st_idx + relay_num)"
  have "\<forall>i\<in>set ?is. 2 \<le> i \<and> nat i < length hosts"
    using assms(2,5) by (auto simp: py_range_set)
  moreover have "rec_st_idx + relay_num - 1 \<in> set ?is"
    using assms(4) by (simp add: py_range_set)
  moreover have "\<not> nat (rec_st_idx + relay_num - 1 - 2) < length action_map"
    using assms(2,3) by simp
  ultimately have "fst (relay_loop bk hosts action_map ?is [] tr) = Inl IndexError"
    using assms(1) by (intro relay_loop_IndexError) blast+
  then show ?thesis by (simp add: deploy_coders_def bindE_Inl)
qed

lemma deploy_coders_never_returns:
  assumes "2 < rec_st_idx" and "relay_num = int (length action_map)" and "0 < relay_num"
  shows "fst (deploy_coders bk hosts rec_st_idx relay_num action_map tr) \<noteq> Inr coders"
proof (cases hosts)
  case None
  then show ?thesis by (simp add: deploy_coders_def throw_def)
next
  case (Some hs)
  show ?thesis
  proof
    assume "fst (deploy_coders bk hosts rec_st_idx relay_num action_map tr) = Inr coders"
    with Some have "deploy_coders bk (Some hs) rec_st_idx relay_num action_map tr
        = (Inr coders, snd (deploy_coders bk (Some hs) rec_st_idx relay_num action_map tr))"
      by (simp add: prod_eq_iff)
    from deploy_coders_Inr [OF this] assms(1)
    have all: "\<forall>i\<in>set (py_range rec_st_idx (rec_st_idx + relay_num)).
                 nat i < length hs \<and> nat (i - 2) < length action_map"
      by auto
    have "rec_st_idx + relay_num - 1 \<in> set (py_range rec_st_idx (rec_st_idx + relay_num))"
      using assms(3) by (simp add: py_range_set)
    with all have "nat (rec_st_idx + relay_num - 1 - 2) < length action_map" by blast
    with assms(1,2) show False by simp
  qed
qed



lemma relay_loop_actions:
  "relay_loop bk hosts am is recs tr = (Inr recs', tr') \<Longrightarrow>
   \<exists>evs. tr' = tr @ evs
     \<and> list_all2 (\<lambda>i e. \<exists>a h. py_index am (i - 2) = Some a \<and> py_index hosts i = Some h
           \<and> returned (AddContainer (''recoder_on_h'' @ str_int (i + 1)) (name h) ''nc_coder''
                         (''python3 ./recoder.py h'' @ str_int (i + 1) @ ''-s'' @ str_int (i + 1)
                            @ '' --action '' @ a) 3) e)
         is evs"
proof (induction "is" arbitrary: recs tr)
  case Nil
  then show ?case by (simp add: ret_Inr)
next
  case (Cons i "is")
  from Cons.prems obtain a h s where
    am: "py_index am (i - 2) = Some a" and hs: "py_index hosts i = Some h"
    and loop: "relay_loop bk hosts am is (recs @ [''recoder_on_h'' @ str_int (i + 1)])
                 (tr @ [Called (AddContainer (''recoder_on_h'' @ str_int (i + 1)) (name h) ''nc_coder''
                         (''python3 ./recoder.py h'' @ str_int (i + 1) @ ''-s'' @ str_int (i + 1)
                            @ '' --action '' @ a) 3) (Returned s)]) = (Inr recs', tr')"
    by (auto simp: bindE_Inr subscript_Inr backend_call_Inr)
  from Cons.IH [OF loop] obtain evs where
    e: "tr' = (tr @ [Called (AddContainer (''recoder_on_h'' @ str_int (i + 1)) (name h) ''nc_coder''
                         (''python3 ./recoder.py h'' @ str_int (i + 1) @ ''-s'' @ str_int (i + 1)
                            @ '' --action '' @ a) 3) (Returned s)]) @ evs"
    and l: "list_all2 (\<lambda>i e. \<exists>a h. py_index am (i - 2) = Some a \<and> py_index hosts i = Some h
           \<and> returned (AddContainer (''recoder_on_h'' @ str_int (i + 1)) (name h) ''nc_coder''
                         (''python3 ./recoder.py h'' @ str_int (i + 1) @ ''-s'' @ str_int (i + 1)
                            @ '' --action '' @ a) 3) e)
         is evs"
    by blast
  show ?case
  proof (intro exI conjI)
    show "tr' = tr @ (Called (AddContainer (''recoder_on_h'' @ str_int (i + 1)) (name h) ''nc_coder''
                         (''python3 ./recoder.py h'' @ str_int (i + 1) @ ''-s'' @ str_int (i + 1)
                            @ '' --action '' @ a) 3) (Returned s) # evs)"
      using e by simp
    show "list_all2 (\<lambda>i e. \<exists>a h. py_index am (i - 2) = Some a \<and> py_index hosts i = Some h
           \<and> returned (AddContainer (''recoder_on_h'' @ str_int (i + 1)) (name h) ''nc_coder''
                         (''python3 ./recoder.py h'' @ str_int (i + 1) @ ''-s'' @ str_int (i + 1)
                            @ '' --action '' @ a) 3) e)
         (i # is)
         (Called (AddContainer (''recoder_on_h'' @ str_int (i + 1)) (name h) ''nc_coder''
                         (''python3 ./recoder.py h'' @ str_int (i + 1) @ ''-s'' @ str_int (i + 1)
                            @ '' --action '' @ a) 3) (Returned s) # evs)"
      using am hs l by simp
  qed
qed

lemma deploy_coders_actions:
  assumes "deploy_coders bk (Some hosts) rec_st_idx relay_num action_map tr = (Inr coders, tr')"
  shows "\<exists>relays rest. tr' = tr @ relays @ rest
     \<and> list_all2 (\<lambda>i e. \<exists>a h. py_index action_map (i - 2) = Some a \<and> py_index hosts i = Some h
           \<and> returned (AddContainer (''recoder_on_h'' @ str_int (i + 1)) (name h) ''nc_coder''
                         (''python3 ./recoder.py h'' @ str_int (i + 1) @ ''-s'' @ str_int (i + 1)
                            @ '' --action '' @ a) 3) e)
         (py_range rec_st_idx (rec_st_idx + relay_num)) relays"
proof -
  let ?is = "py_range rec_st_idx (rec_st_idx + relay_num)"
  from assms obtain recs tr1 where
    loop: "relay_loop bk hosts action_map ?is [] tr = (Inr recs, tr1)"
    and rest: "\<exists>rest. tr' = tr1 @ rest"
    by (auto simp: deploy_coders_def bindE_Inr sleep_Inr subscript_Inr backend_call_Inr ret_Inr)
  from rest obtain rest where tr': "tr' = tr1 @ rest" ..
  from relay_loop_actions [OF loop] obtain evs where
    "tr1 = tr @ evs"
    "list_all2 (\<lambda>i e. \<exists>a h. py_index action_map (i - 2) = Some a \<and> py_index hosts i = Some h
           \<and> returned (AddContainer (''recoder_on_h'' @ str_int (i + 1)) (name h) ''nc_coder''
                         (''python3 ./recoder.py h'' @ str_int (i + 1) @ ''-s'' @ str_int (i + 1)
                            @ '' --action '' @ a) 3) e)
         ?is evs"
    by blast
  with tr' show ?thesis by (intro exI [of _ evs] exI [of _ rest]) simp
qed

text \<open>
  C9, amended. The action of the relay on host index \<open>i\<close> is read at
  \<open>action_map[i - 2]\<close>, whatever \<open>rec_st_idx\<close> is: a call that returns has started
  every relay with the entry at that index (an index of Python, so one below zero counts
  from the end). With \<open>rec_st_idx = 2\<close> that entry is \<open>action_map[i - rec_st_idx]\<close>;
  it is not only then that the two agree. With \<open>rec_st_idx > 2\<close> and
  \<open>relay_num = len(action_map) > 0\<close>, every \<open>i - rec_st_idx\<close> is within the action map,
  but \<open>i - 2\<close> is out of range exactly for the relays with \<open>i \<ge> relay_num + 2\<close>,
  the last one among them: the call never returns normally, and it raises
  \<open>IndexError\<close> when the backend raises nothing and the hosts are enough.
\<close>

theorem deploy_action_index:
  "(deploy_coders bk (Some hosts) rec_st_idx relay_num action_map tr = (Inr coders, tr') \<longrightarrow>
      (\<exists>relays rest. tr' = tr @ relays @ rest
         \<and> list_all2 (\<lambda>i e. \<exists>a h. py_index action_map (i - 2) = Some a
                 \<and> py_index hosts i = Some h
                 \<and> returned (AddContainer (''recoder_on_h'' @ str_int (i + 1)) (name h) ''nc_coder''
                               (''python3 ./recoder.py h'' @ str_int (i + 1) @ ''-s''
                                  @ str_int (i + 1) @ '' --action '' @ a) 3) e)
              (py_range rec_st_idx (rec_st_idx + relay_num)) relays))
   \<and> (rec_st_idx = 2
      \<and> deploy_coders bk (Some hosts) rec_st_idx relay_num action_map tr = (Inr coders, tr') \<longrightarrow>
      (\<exists>relays rest. tr' = tr @ relays @ rest
         \<and> list_all2 returned
              (map (\<lambda>i. AddContainer (''recoder_on_h'' @ str_int (i + 1)) (name (hosts ! nat i))
                           ''nc_coder''
                           (''python3 ./recoder.py h'' @ str_int (i + 1) @ ''-s'' @ str_int (i + 1)
                              @ '' --action '' @ action_map ! nat (i - rec_st_idx)) 3)
                 (py_range rec_st_idx (rec_st_idx + relay_num)))
              relays))
   \<and> (2 < rec_st_idx \<and> relay_num = int (length action_map) \<and> 0 < relay_num \<longrightarrow>
        py_index action_map (rec_st_idx + relay_num - 1 - 2) = None
        \<and> (\<forall>i\<in>set (py_range rec_st_idx (rec_st_idx + relay_num)).
              py_index action_map (i - rec_st_idx) \<noteq> None
              \<and> (py_index action_map (i - 2) = None \<longleftrightarrow> relay_num + 2 \<le> i))
        \<and> (\<forall>cs. fst (deploy_coders bk hosts_opt rec_st_idx relay_num action_map tr) \<noteq> Inr cs)
        \<and> ((\<forall>t c. bk t c \<noteq> Raised) \<and> rec_st_idx + relay_num \<le> int (length hosts) \<longrightarrow>
             fst (deploy_coders bk (Some hosts) rec_st_idx relay_num action_map tr) = Inl IndexError))"
proof (intro conjI impI)
  assume "deploy_coders bk (Some hosts) rec_st_idx relay_num action_map tr = (Inr coders, tr')"
  then show "\<exists>relays rest. tr' = tr @ relays @ rest
         \<and> list_all2 (\<lambda>i e. \<exists>a h. py_index action_map (i - 2) = Some a
                 \<and> py_index hosts i = Some h
                 \<and> returned (AddContainer (''recoder_on_h'' @ str_int (i + 1)) (name h) ''nc_coder''
                               (''python3 ./recoder.py h'' @ str_int (i + 1) @ ''-s''
                                  @ str_int (i + 1) @ '' --action '' @ a) 3) e)
              (py_range rec_st_idx (rec_st_idx + relay_num)) relays"
    by (rule deploy_coders_actions)
next
  assume a: "rec_st_idx = 2
      \<and> deploy_coders bk (Some hosts) rec_st_idx relay_num action_map tr = (Inr coders, tr')"
  then have "2 \<le> rec_st_idx" by simp
  from deploy_coders_Inr [OF conjunct2 [OF a] this] obtain relays e_dec e_enc where
    "tr' = tr @ relays @ [Slept relay_num, e_dec, e_enc]"
    "list_all2 returned
       (map (relay_call hosts action_map) (py_range rec_st_idx (rec_st_idx + relay_num))) relays"
    by blast
  moreover have "relay_call hosts action_map
      = (\<lambda>i. AddContainer (''recoder_on_h'' @ str_int (i + 1)) (name (hosts ! nat i))
                           ''nc_coder''
                           (''python3 ./recoder.py h'' @ str_int (i + 1) @ ''-s'' @ str_int (i + 1)
                              @ '' --action '' @ action_map ! nat (i - rec_st_idx)) 3)"
    using a by (intro ext) (simp add: relay_call_def)
  ultimately show "\<exists>relays rest. tr' = tr @ relays @ rest
         \<and> list_all2 returned
              (map (\<lambda>i. AddContainer (''recoder_on_h'' @ str_int (i + 1)) (name (hosts ! nat i))
                           ''nc_coder''
                           (''python3 ./recoder.py h'' @ str_int (i + 1) @ ''-s'' @ str_int (i + 1)
                              @ '' --action '' @ action_map ! nat (i - rec_st_idx)) 3)
                 (py_range rec_st_idx (rec_st_idx + relay_num)))
              relays"
    by metis
next
  assume b: "2 < rec_st_idx \<and> relay_num = int (length action_map) \<and> 0 < relay_num"
  then have "0 \<le> rec_st_idx + relay_num - 1 - 2"
    and "\<not> nat (rec_st_idx + relay_num - 1 - 2) < length action_map"
    by linarith+
  then show "py_index action_map (rec_st_idx + relay_num - 1 - 2) = None"
    by (simp only: py_index_nonneg if_False)
  from b show "\<forall>i\<in>set (py_range rec_st_idx (rec_st_idx + relay_num)).
              py_index action_map (i - rec_st_idx) \<noteq> None
              \<and> (py_index action_map (i - 2) = None \<longleftrightarrow> relay_num + 2 \<le> i)"
    by (auto simp: py_range_set py_index_nonneg)
  from b have b1: "2 < rec_st_idx" and b2: "relay_num = int (length action_map)"
    and b3: "0 < relay_num"
    by blast+
  show "\<forall>cs. fst (deploy_coders bk hosts_opt rec_st_idx relay_num action_map tr) \<noteq> Inr cs"
    using deploy_coders_never_returns [OF b1 b2 b3] by blast
  assume c: "(\<forall>t c. bk t c \<noteq> Raised) \<and> rec_st_idx + relay_num \<le> int (length hosts)"
  show "fst (deploy_coders bk (Some hosts) rec_st_idx relay_num action_map tr) = Inl IndexError"
    by (rule deploy_coders_IndexError [OF conjunct1 [OF c] b1 b2 b3 conjunct2 [OF c]])
qed

text \<open>
  With \<open>rec_st_idx = 0\<close>, two relays and the action map \<open>[recode, forward]\<close> the call
  returns, and the relays on host indices 0 and 1 were started with \<open>action_map[-2]\<close>
  and \<open>action_map[-1]\<close>, which are \<open>action_map[0 - rec_st_idx]\<close> and
  \<open>action_map[1 - rec_st_idx]\<close>.
\<close>

theorem deploy_action_index_counterexample:
  "(0::int) \<noteq> 2
   \<and> fst (deploy_coders backend_ok (Some hosts7) 0 2 [''recode'', ''forward''] [])
       = Inr (''encoder'', ''decoder'', [''recoder_on_h1'', ''recoder_on_h2''])
   \<and> snd (deploy_coders backend_ok (Some hosts7) 0 2 [''recode'', ''forward''] [])
       = [Called (AddContainer ''recoder_on_h1'' ''h1'' ''nc_coder''
                    ''python3 ./recoder.py h1-s1 --action recode'' 3) (Returned ''1''),
          Called (AddContainer ''recoder_on_h2'' ''h2'' ''nc_coder''
                    ''python3 ./recoder.py h2-s2 --action forward'' 3) (Returned ''1''),
          Slept 2,
          Called (AddContainer ''decoder'' ''h6'' ''nc_coder'' ''python3 ./decoder.py h6-s6'' 3)
            (Returned ''1''),
          Called (AddContainer ''encoder'' ''h2'' ''nc_coder'' ''python3 ./encoder.py h2-s2'' 3)
            (Returned ''1'')]
   \<and> py_index [''recode'', ''forward''] (0 - 0) = Some ''recode''
   \<and> py_index [''recode'', ''forward''] (1 - 0) = Some ''forward''
   \<and> py_index [''recode'', ''forward''] (0 - 2) = Some ''recode''
   \<and> py_index [''recode'', ''forward''] (1 - 2) = Some ''forward''"
proof -
  let ?run = "deploy_coders backend_ok (Some hosts7) 0 2 [''recode'', ''forward''] []"
  have f: "fst ?run = Inr (''encoder'', ''decoder'', [''recoder_on_h1'', ''recoder_on_h2''])"
    by code_simp
  have t: "snd ?run
       = [Called (AddContainer ''recoder_on_h1'' ''h1'' ''nc_coder''
                    ''python3 ./recoder.py h1-s1 --action recode'' 3) (Returned ''1''),
          Called (AddContainer ''recoder_on_h2'' ''h2'' ''nc_coder''
                    ''python3 ./recoder.py h2-s2 --action forward'' 3) (Returned ''1''),
          Slept 2,
          Called (AddContainer ''decoder'' ''h6'' ''nc_coder'' ''python3 ./decoder.py h6-s6'' 3)
            (Returned ''1''),
          Called (AddContainer ''encoder'' ''h2'' ''nc_coder'' ''python3 ./encoder.py h2-s2'' 3)
            (Returned ''1'')]"
    by code_simp
  have i: "py_index [''recode'', ''forward''] (0 - 0) = Some ''recode''"
    "py_index [''recode'', ''forward''] (1 - 0) = Some ''forward''"
    "py_index [''recode'', ''forward''] (0 - 2) = Some ''recode''"
    "py_index [''recode'', ''forward''] (1 - 2) = Some ''forward''"
    by (simp_all add: py_index_def)
  have "(0::int) \<noteq> 2" by simp
  with f t i show ?thesis by blast
qed

theorem deploy_action_index_witness:
  "py_index [''recode'', ''forward'', ''forward''] (3 + 3 - 1 - 2) = None
   \<and> py_index [''recode'', ''forward'', ''forward''] (5 - 3) = Some ''forward''
   \<and> fst (deploy_coders backend_ok (Some hosts7) 3 3 [''recode'', ''forward'', ''forward''] [])
       = Inl IndexError
   \<and> snd (deploy_coders backend_ok (Some hosts7) 3 3 [''recode'', ''forward'', ''forward''] [])
     = [Called (AddContainer ''recoder_on_h4'' ''h4'' ''nc_coder''
                  ''python3 ./recoder.py h4-s4 --action forward'' 3) (Returned ''1''),
        Called (AddContainer ''recoder_on_h5'' ''h5'' ''nc_coder''
                  ''python3 ./recoder.py h5-s5 --action forward'' 3) (Returned ''1'')]
   \<and> fst (deploy_coders backend_ok (Some hosts7) 0 2 [''recode'', ''forward''] [])
       = Inr (''encoder'', ''decoder'', [''recoder_on_h1'', ''recoder_on_h2''])
   \<and> (\<exists>relays rest.
         snd (deploy_coders backend_ok (Some hosts7) 0 2 [''recode'', ''forward''] [])
           = relays @ rest
         \<and> length relays = 2)
   \<and> fst (deploy_coders backend_ok (Some hosts7) 2 3 [''recode'', ''forward'', ''forward''] [])
       = Inr (''encoder'', ''decoder'', [''recoder_on_h3'', ''recoder_on_h4'', ''recoder_on_h5''])
   \<and> (\<exists>relays rest.
         snd (deploy_coders backend_ok (Some hosts7) 2 3 [''recode'', ''forward'', ''forward''] [])
           = relays @ rest
         \<and> length relays = 3)"
proof -
  let ?am = "[''recode'', ''forward'', ''forward'']"
  have pre: "(2::int) < 3 \<and> (3::int) = int (length ?am) \<and> (0::int) < 3" by simp
  have ok: "(\<forall>t c. backend_ok t c \<noteq> Raised) \<and> (3::int) + 3 \<le> int (length hosts7)"
    by (simp add: backend_ok_def hosts7_def)
  have t: "snd (deploy_coders backend_ok (Some hosts7) 3 3 ?am [])
     = [Called (AddContainer ''recoder_on_h4'' ''h4'' ''nc_coder''
                  ''python3 ./recoder.py h4-s4 --action forward'' 3) (Returned ''1''),
        Called (AddContainer ''recoder_on_h5'' ''h5'' ''nc_coder''
                  ''python3 ./recoder.py h5-s5 --action forward'' 3) (Returned ''1'')]"
    by code_simp
  have s: "py_index ?am (5 - 3) = Some ''forward''" by (simp add: py_index_def)
  note w = deploy_action_index [of backend_ok hosts7 3 3 ?am "[]" "(''encoder'', ''decoder'', [])" "[]"
      "Some hosts7"]
  from w pre have a: "py_index ?am (3 + 3 - 1 - 2) = None" by blast
  from w pre ok have b: "fst (deploy_coders backend_ok (Some hosts7) 3 3 ?am []) = Inl IndexError"
    by blast
  let ?run0 = "deploy_coders backend_ok (Some hosts7) 0 2 [''recode'', ''forward''] []"
  have f0: "fst ?run0 = Inr (''encoder'', ''decoder'', [''recoder_on_h1'', ''recoder_on_h2''])"
    by code_simp
  then have e0: "?run0
      = (Inr (''encoder'', ''decoder'', [''recoder_on_h1'', ''recoder_on_h2'']), snd ?run0)"
    by (simp add: prod_eq_iff)
  note w0 = deploy_action_index [of backend_ok hosts7 0 2 "[''recode'', ''forward'']" "[]"
      "(''encoder'', ''decoder'', [''recoder_on_h1'', ''recoder_on_h2''])" "snd ?run0" "Some hosts7"]
  from w0 e0 obtain relays0 rest0 where
    r0: "snd ?run0 = [] @ relays0 @ rest0"
    and l0: "list_all2 (\<lambda>i e. \<exists>a h. py_index [''recode'', ''forward''] (i - 2) = Some a
                 \<and> py_index hosts7 i = Some h
                 \<and> returned (AddContainer (''recoder_on_h'' @ str_int (i + 1)) (name h) ''nc_coder''
                               (''python3 ./recoder.py h'' @ str_int (i + 1) @ ''-s''
                                  @ str_int (i + 1) @ '' --action '' @ a) 3) e)
              (py_range 0 (0 + 2)) relays0"
    by blast
  have "length relays0 = 2"
    using list_all2_lengthD [OF l0] py_range_length [of 0 2] by simp
  with r0 have c: "\<exists>relays rest. snd ?run0 = relays @ rest \<and> length relays = 2"
    by auto
  let ?run2 = "deploy_coders backend_ok (Some hosts7) 2 3 ?am []"
  have f2: "fst ?run2
      = Inr (''encoder'', ''decoder'', [''recoder_on_h3'', ''recoder_on_h4'', ''recoder_on_h5''])"
    by code_simp
  then have e2: "(2::int) = 2 \<and> ?run2
      = (Inr (''encoder'', ''decoder'', [''recoder_on_h3'', ''recoder_on_h4'', ''recoder_on_h5'']),
         snd ?run2)"
    by (simp add: prod_eq_iff)
  note w2 = deploy_action_index [of backend_ok hosts7 2 3 ?am "[]"
      "(''encoder'', ''decoder'', [''recoder_on_h3'', ''recoder_on_h4'', ''recoder_on_h5''])"
      "snd ?run2" "Some hosts7"]
  from w2 e2 obtain relays2 rest2 where
    r2: "snd ?run2 = [] @ relays2 @ rest2"
    and l2: "list_all2 returned
              (map (\<lambda>i. AddContainer (''recoder_on_h'' @ str_int (i + 1)) (name (hosts7 ! nat i))
                           ''nc_coder''
                           (''python3 ./recoder.py h'' @ str_int (i + 1) @ ''-s'' @ str_int (i + 1)
                              @ '' --action '' @ ?am ! nat (i - 2)) 3)
                 (py_range 2 (2 + 3)))
              relays2"
    by blast
  have "length relays2 = 3"
    using list_all2_lengthD [OF l2] py_range_length [of 2 3] by simp
  with r2 have d: "\<exists>relays rest. snd ?run2 = relays @ rest \<and> length relays = 3"
    by auto
  from a b s t f0 c f2 d show ?thesis by blast
qed

section \<open>Rendering numbers\<close>

text \<open>
  \<open>str_int\<close> computed on the integer itself, digit by digit: the equation used to
  evaluate it.
\<close>

lemma str_int_code [code]:
  "str_int i =
     (if i < 0 then CHR ''-'' # str_nat (nat (- i))
      else if i < 10 then [''0123456789'' ! nat i]
      else str_int (i div 10) @ [''0123456789'' ! nat (i mod 10)])"
proof -
  have "str_nat (nat i) = str_nat (nat (i div 10)) @ [''0123456789'' ! nat (i mod 10)]"
    if "10 \<le> i"
  proof -
    from that have "\<not> nat i < 10" by simp
    moreover have "nat i div 10 = nat (i div 10)" "nat i mod 10 = nat (i mod 10)"
      using that by (simp_all add: nat_div_distrib nat_mod_distrib)
    ultimately show ?thesis by (subst str_nat.simps) simp
  qed
  moreover have "str_nat (nat i) = [''0123456789'' ! nat i]" if "0 \<le> i" "i < 10"
  proof -
    from that have "nat i < 10" by simp
    then show ?thesis by (subst str_nat.simps) simp
  qed
  moreover have "str_int (i div 10) = str_nat (nat (i div 10))" if "10 \<le> i"
  proof -
    from that have "0 \<le> i div 10" by simp
    then show ?thesis by (simp add: str_int_def)
  qed
  ultimately show ?thesis
    by (cases "i < 0"; cases "i < 10") (simp_all add: str_int_def)
qed

section \<open>A failure while the topology is assembled\<close>

text \<open>
  C1, at a failing input: \<open>host_num = 5\<close> on a backend where adding the second switch
  raises and every other call returns. \<open>create_topology\<close> calls \<open>net.stop()\<close> and
  returns \<open>None\<close>: nothing is raised to the caller. The run goes on: it starts the
  network, programs the flows of four switches, disables the checksum offloading, fails
  in \<open>deploy_coders\<close> on \<open>hosts = None\<close> before any container is added, and calls
  \<open>net.stop()\<close> a second time in its \<open>finally\<close> block; it returns normally.
\<close>

theorem topology_failure_run:
  "create_topology backend_s2_fails 5 []
     = (Inr None,
        [Called (AddController ''c0'') (Returned ''1''),
         Called (AddDockerHost ''h1'' ''dev_test'' ''10.0.0.1'') (Returned ''1''),
         Called (AddSwitch ''s1'') (Returned ''1''),
         Called (AddLinkNamedIfce ''s1'' ''h1'' ''20ms'' None) (Returned ''1''),
         Called (AddDockerHost ''h2'' ''dev_test'' ''10.0.0.2'') (Returned ''1''),
         Called (AddSwitch ''s2'') Raised,
         Called NetStop (Returned ''1'')])
   \<and> run_multihop_nc_test backend_s2_fails 100 10 False 5 0 Map.empty []
     = (Inr (),
  [Called (CheckOutput (Sysctl ''net.ipv6.conf.all.disable_ipv6'' 1))
    (Returned ''1''),
   Called (CheckOutput (Sysctl ''net.ipv6.conf.default.disable_ipv6'' 1))
    (Returned ''1''),
   Called Containernet (Returned ''1''), Called VNFManager (Returned ''1''),
   Called (AddController ''c0'') (Returned ''1''),
   Called (AddDockerHost ''h1'' ''dev_test'' ''10.0.0.1'') (Returned ''1''),
   Called (AddSwitch ''s1'') (Returned ''1''),
   Called (AddLinkNamedIfce ''s1'' ''h1'' ''20ms'' None) (Returned ''1''),
   Called (AddDockerHost ''h2'' ''dev_test'' ''10.0.0.2'') (Returned ''1''),
   Called (AddSwitch ''s2'') Raised, Called NetStop (Returned ''1''),
   Called NetStart (Returned ''1''),
   Called (CheckOutput (OvsDelFlows 1)) (Returned ''1''),
   Called (CheckOutput (OvsGetOfport ''s1-h1'')) (Returned ''1''),
   Called (CheckOutput (OvsGetOfport ''s1-s2'')) (Returned ''1''),
   Called (CheckOutput (OvsAddFlow 1 ''udp'' ''1'' ''1'')) (Returned ''1''),
   Called (CheckOutput (OvsDelFlows 2)) (Returned ''1''),
   Called (CheckOutput (OvsGetOfport ''s2-h2'')) (Returned ''1''),
   Called (CheckOutput (OvsGetOfport ''s2-s3'')) (Returned ''1''),
   Called (CheckOutput (OvsAddFlow 2 ''udp'' ''1'' ''1'')) (Returned ''1''),
   Called (CheckOutput (OvsGetOfport ''s2-s1'')) (Returned ''1''),
   Called (CheckOutput (OvsGetOfport ''s2-h2'')) (Returned ''1''),
   Called (CheckOutput (OvsAddFlow 2 ''udp'' ''1'' ''1'')) (Returned ''1''),
   Called (CheckOutput (OvsDelFlows 3)) (Returned ''1''),
   Called (CheckOutput (OvsGetOfport ''s3-h3'')) (Returned ''1''),
   Called (CheckOutput (OvsGetOfport ''s3-s4'')) (Returned ''1''),
   Called (CheckOutput (OvsAddFlow 3 ''udp'' ''1'' ''1'')) (Returned ''1''),
   Called (CheckOutput (OvsGetOfport ''s3-s2'')) (Returned ''1''),
   Called (CheckOutput (OvsGetOfport ''s3-h3'')) (Returned ''1''),
   Called (CheckOutput (OvsAddFlow 3 ''udp'' ''1'' ''1'')) (Returned ''1''),
   Called (CheckOutput (OvsDelFlows 4)) (Returned ''1''),
   Called (CheckOutput (OvsGetOfport ''s4-h4'')) (Returned ''1''),
   Called (CheckOutput (OvsGetOfport ''s4-s5'')) (Returned ''1''),
   Called (CheckOutput (OvsAddFlow 4 ''udp'' ''1'' ''1'')) (Returned ''1''),
   Called (CheckOutput (OvsGetOfport ''s4-s3'')) (Returned ''1''),
   Called (CheckOutput (OvsGetOfport ''s4-h4'')) (Returned ''1''),
   Called (CheckOutput (OvsAddFlow 4 ''udp'' ''1'' ''1'')) (Returned ''1''),
   Called (CheckOutput (Ethtool ''s1-h1'')) (Returned ''1''),
   Called (CheckOutput (Ethtool ''s2-h2'')) (Returned ''1''),
   Called (CheckOutput (Ethtool ''s3-h3'')) (Returned ''1''),
   Called (CheckOutput (Ethtool ''s4-h4'')) (Returned ''1''),
   Called (CheckOutput (Ethtool ''s5-h5'')) (Returned ''1''),
   Called NetStop (Returned ''1''), Called MgrStop (Returned ''1''),
   Called (CheckOutput (Sysctl ''net.ipv6.conf.all.disable_ipv6'' 0))
    (Returned ''1''),
   Called (CheckOutput (Sysctl ''net.ipv6.conf.default.disable_ipv6'' 0))
    (Returned ''1'')])
   \<and> length (filter (is_call NetStop)
        (snd (run_multihop_nc_test backend_s2_fails 100 10 False 5 0 Map.empty []))) = 2
   \<and> installed_rules 1 (dropWhile (\<lambda>e. \<not> is_call NetStop e)
        (snd (run_multihop_nc_test backend_s2_fails 100 10 False 5 0 Map.empty [])))
       = [(''udp'', ''1'', ''1'')]"
proof -
  have build: "create_topology backend_s2_fails 5 []
     = (Inr None,
        [Called (AddController ''c0'') (Returned ''1''),
         Called (AddDockerHost ''h1'' ''dev_test'' ''10.0.0.1'') (Returned ''1''),
         Called (AddSwitch ''s1'') (Returned ''1''),
         Called (AddLinkNamedIfce ''s1'' ''h1'' ''20ms'' None) (Returned ''1''),
         Called (AddDockerHost ''h2'' ''dev_test'' ''10.0.0.2'') (Returned ''1''),
         Called (AddSwitch ''s2'') Raised,
         Called NetStop (Returned ''1'')])"
    by code_simp
  have run: "run_multihop_nc_test backend_s2_fails 100 10 False 5 0 Map.empty []
     = (Inr (),
  [Called (CheckOutput (Sysctl ''net.ipv6.conf.all.disable_ipv6'' 1))
    (Returned ''1''),
   Called (CheckOutput (Sysctl ''net.ipv6.conf.default.disable_ipv6'' 1))
    (Returned ''1''),
   Called Containernet (Returned ''1''), Called VNFManager (Returned ''1''),
   Called (AddController ''c0'') (Returned ''1''),
   Called (AddDockerHost ''h1'' ''dev_test'' ''10.0.0.1'') (Returned ''1''),
   Called (AddSwitch ''s1'') (Returned ''1''),
   Called (AddLinkNamedIfce ''s1'' ''h1'' ''20ms'' None) (Returned ''1''),
   Called (AddDockerHost ''h2'' ''dev_test'' ''10.0.0.2'') (Returned ''1''),
   Called (AddSwitch ''s2'') Raised, Called NetStop (Returned ''1''),
   Called NetStart (Returned ''1''),
   Called (CheckOutput (OvsDelFlows 1)) (Returned ''1''),
   Called (CheckOutput (OvsGetOfport ''s1-h1'')) (Returned ''1''),
   Called (CheckOutput (OvsGetOfport ''s1-s2'')) (Returned ''1''),
   Called (CheckOutput (OvsAddFlow 1 ''udp'' ''1'' ''1'')) (Returned ''1''),
   Called (CheckOutput (OvsDelFlows 2)) (Returned ''1''),
   Called (CheckOutput (OvsGetOfport ''s2-h2'')) (Returned ''1''),
   Called (CheckOutput (OvsGetOfport ''s2-s3'')) (Returned ''1''),
   Called (CheckOutput (OvsAddFlow 2 ''udp'' ''1'' ''1'')) (Returned ''1''),
   Called (CheckOutput (OvsGetOfport ''s2-s1'')) (Returned ''1''),
   Called (CheckOutput (OvsGetOfport ''s2-h2'')) (Returned ''1''),
   Called (CheckOutput (OvsAddFlow 2 ''udp'' ''1'' ''1'')) (Returned ''1''),
   Called (CheckOutput (OvsDelFlows 3)) (Returned ''1''),
   Called (CheckOutput (OvsGetOfport ''s3-h3'')) (Returned ''1''),
   Called (CheckOutput (OvsGetOfport ''s3-s4'')) (Returned ''1''),
   Called (CheckOutput (OvsAddFlow 3 ''udp'' ''1'' ''1'')) (Returned ''1''),
   Called (CheckOutput (OvsGetOfport ''s3-s2'')) (Returned ''1''),
   Called (CheckOutput (OvsGetOfport ''s3-h3'')) (Returned ''1''),
   Called (CheckOutput (OvsAddFlow 3 ''udp'' ''1'' ''1'')) (Returned ''1''),
   Called (CheckOutput (OvsDelFlows 4)) (Returned ''1''),
   Called (CheckOutput (OvsGetOfport ''s4-h4'')) (Returned ''1''),
   Called (CheckOutput (OvsGetOfport ''s4-s5'')) (Returned ''1''),
   Called (CheckOutput (OvsAddFlow 4 ''udp'' ''1'' ''1'')) (Returned ''1''),
   Called (CheckOutput (OvsGetOfport ''s4-s3'')) (Returned ''1''),
   Called (CheckOutput (OvsGetOfport ''s4-h4'')) (Returned ''1''),
   Called (CheckOutput (OvsAddFlow 4 ''udp'' ''1'' ''1'')) (Returned ''1''),
   Called (CheckOutput (Ethtool ''s1-h1'')) (Returned ''1''),
   Called (CheckOutput (Ethtool ''s2-h2'')) (Returned ''1''),
   Called (CheckOutput (Ethtool ''s3-h3'')) (Returned ''1''),
   Called (CheckOutput (Ethtool ''s4-h4'')) (Returned ''1''),
   Called (CheckOutput (Ethtool ''s5-h5'')) (Returned ''1''),
   Called NetStop (Returned ''1''), Called MgrStop (Returned ''1''),
   Called (CheckOutput (Sysctl ''net.ipv6.conf.all.disable_ipv6'' 0))
    (Returned ''1''),
   Called (CheckOutput (Sysctl ''net.ipv6.conf.default.disable_ipv6'' 0))
    (Returned ''1'')])"
    by code_simp
  have "length (filter (is_call NetStop)
        (snd (run_multihop_nc_test backend_s2_fails 100 10 False 5 0 Map.empty []))) = 2"
    unfolding run by simp
  moreover have "installed_rules 1 (dropWhile (\<lambda>e. \<not> is_call NetStop e)
        (snd (run_multihop_nc_test backend_s2_fails 100 10 False 5 0 Map.empty [])))
       = [(''udp'', ''1'', ''1'')]"
    unfolding run by (simp add: installed_rules_def)
  ultimately show ?thesis using build run by blast
qed

section \<open>Cleanup at the end of a run\<close>

lemma run_after_setup:
  "run_setup bk host_num tr = (Inr hosts, tr0) \<Longrightarrow>
   run_multihop_nc_test bk ss ml all_forward host_num profile conf tr
     = try_finally (try_except (run_body bk ss ml all_forward host_num profile conf hosts)
                      (\<lambda>e. ret ()))
         (run_finally bk) tr0"
  by (simp add: run_multihop_nc_test_def bindE_def)

lemma try_except_logged:
  "try_except m (\<lambda>e. ret ()) tr = (Inr (), snd (m tr))"
  by (cases "m tr"; cases "fst (m tr)") (auto simp: try_except_def ret_def)

lemma run_finally_first:
  "\<exists>stop rest. snd (run_finally bk t) = t @ Called NetStop stop # rest"
  by (auto simp: run_finally_def config_ipv6_def check_output_def bindE_def backend_call_def
        ret_def split: outcome.splits)

lemma run_finally_returns:
  assumes "\<forall>t. bk t NetStop \<noteq> Raised" and "\<forall>t. bk t MgrStop \<noteq> Raised"
    and "\<forall>t. bk t (CheckOutput (Sysctl ''net.ipv6.conf.all.disable_ipv6'' 0)) \<noteq> Raised"
    and "\<forall>t. bk t (CheckOutput (Sysctl ''net.ipv6.conf.default.disable_ipv6'' 0)) \<noteq> Raised"
  shows "\<exists>o1 o2 o3 o4. run_finally bk t
     = (Inr (), t @ [Called NetStop (Returned o1), Called MgrStop (Returned o2),
           Called (CheckOutput (Sysctl ''net.ipv6.conf.all.disable_ipv6'' 0)) (Returned o3),
           Called (CheckOutput (Sysctl ''net.ipv6.conf.default.disable_ipv6'' 0)) (Returned o4)])"
proof -
  let ?a = "CheckOutput (Sysctl ''net.ipv6.conf.all.disable_ipv6'' 0)"
  let ?d = "CheckOutput (Sysctl ''net.ipv6.conf.default.disable_ipv6'' 0)"
  from assms(1) obtain o1 where 1: "bk t NetStop = Returned o1"
    by (meson outcome.exhaust)
  from assms(2) obtain o2 where 2: "bk (t @ [Called NetStop (Returned o1)]) MgrStop = Returned o2"
    by (meson outcome.exhaust)
  from assms(3) obtain o3 where
    3: "bk (t @ [Called NetStop (Returned o1), Called MgrStop (Returned o2)]) ?a = Returned o3"
    by (meson outcome.exhaust)
  from assms(4) obtain o4 where
    4: "bk (t @ [Called NetStop (Returned o1), Called MgrStop (Returned o2), Called ?a (Returned o3)]) ?d
          = Returned o4"
    by (meson outcome.exhaust)
  have "run_finally bk t
     = (Inr (), t @ [Called NetStop (Returned o1), Called MgrStop (Returned o2),
           Called ?a (Returned o3), Called ?d (Returned o4)])"
    using 1 2 3 4
    by (simp add: run_finally_def config_ipv6_def check_output_def bindE_def backend_call_def ret_def)
  then show ?thesis by blast
qed

lemma sysctl_value_end:
  "sysctl_value ''net.ipv6.conf.all.disable_ipv6''
     (t @ [Called NetStop o1, Called MgrStop o2,
           Called (CheckOutput (Sysctl ''net.ipv6.conf.all.disable_ipv6'' 0)) (Returned o3),
           Called (CheckOutput (Sysctl ''net.ipv6.conf.default.disable_ipv6'' 0)) (Returned o4)])
     = Some 0"
  "sysctl_value ''net.ipv6.conf.default.disable_ipv6''
     (t @ [Called NetStop o1, Called MgrStop o2,
           Called (CheckOutput (Sysctl ''net.ipv6.conf.all.disable_ipv6'' 0)) (Returned o3),
           Called (CheckOutput (Sysctl ''net.ipv6.conf.default.disable_ipv6'' 0)) (Returned o4)])
     = Some 0"
  by (simp_all add: sysctl_value_def)

text \<open>
  Inside the \<open>try\<close>. Once the lines before the \<open>try\<close> have returned, whatever the
  body of the \<open>try\<close> did and however it ended, \<open>net.stop()\<close> is the next call after
  it. When \<open>net.stop()\<close>, \<open>mgr.stop()\<close> and the two \<open>sysctl\<close> commands of the
  \<open>finally\<close> block do not raise, the run returns normally, these four calls are its
  last ones, in this order, and both IPv6 switches are left at 0: IPv6 is enabled again.
\<close>

lemma run_cleanup_inside_try:
  assumes "run_setup bk host_num tr = (Inr hosts, tr0)"
  shows "(\<exists>stop rest.
            snd (run_multihop_nc_test bk ss ml all_forward host_num profile conf tr)
              = snd (run_body bk ss ml all_forward host_num profile conf hosts tr0)
                  @ Called NetStop stop # rest)
     \<and> ((\<forall>t. bk t NetStop \<noteq> Raised) \<and> (\<forall>t. bk t MgrStop \<noteq> Raised)
          \<and> (\<forall>t. bk t (CheckOutput (Sysctl ''net.ipv6.conf.all.disable_ipv6'' 0)) \<noteq> Raised)
          \<and> (\<forall>t. bk t (CheckOutput (Sysctl ''net.ipv6.conf.default.disable_ipv6'' 0)) \<noteq> Raised)
          \<longrightarrow>
          fst (run_multihop_nc_test bk ss ml all_forward host_num profile conf tr) = Inr ()
          \<and> (\<exists>o1 o2 o3 o4.
                snd (run_multihop_nc_test bk ss ml all_forward host_num profile conf tr)
                  = snd (run_body bk ss ml all_forward host_num profile conf hosts tr0)
                      @ [Called NetStop (Returned o1), Called MgrStop (Returned o2),
                         Called (CheckOutput (Sysctl ''net.ipv6.conf.all.disable_ipv6'' 0))
                           (Returned o3),
                         Called (CheckOutput (Sysctl ''net.ipv6.conf.default.disable_ipv6'' 0))
                           (Returned o4)])
          \<and> sysctl_value ''net.ipv6.conf.all.disable_ipv6''
                (snd (run_multihop_nc_test bk ss ml all_forward host_num profile conf tr)) = Some 0
          \<and> sysctl_value ''net.ipv6.conf.default.disable_ipv6''
                (snd (run_multihop_nc_test bk ss ml all_forward host_num profile conf tr)) = Some 0)"
proof (intro conjI impI)
  let ?run = "run_multihop_nc_test bk ss ml all_forward host_num profile conf tr"
  let ?t1 = "snd (run_body bk ss ml all_forward host_num profile conf hosts tr0)"
  have run: "?run = (case run_finally bk ?t1 of
                       (Inl e, tr2) \<Rightarrow> (Inl e, tr2) | (Inr u, tr2) \<Rightarrow> (Inr (), tr2))"
    by (simp add: run_after_setup [OF assms] try_finally_def try_except_logged)
  then have snd_run: "snd ?run = snd (run_finally bk ?t1)"
    by (simp split: prod.splits sum.splits)
  from run_finally_first [of bk ?t1] show "\<exists>stop rest. snd ?run = ?t1 @ Called NetStop stop # rest"
    unfolding snd_run .
  assume ok: "(\<forall>t. bk t NetStop \<noteq> Raised) \<and> (\<forall>t. bk t MgrStop \<noteq> Raised)
          \<and> (\<forall>t. bk t (CheckOutput (Sysctl ''net.ipv6.conf.all.disable_ipv6'' 0)) \<noteq> Raised)
          \<and> (\<forall>t. bk t (CheckOutput (Sysctl ''net.ipv6.conf.default.disable_ipv6'' 0)) \<noteq> Raised)"
  then obtain o1 o2 o3 o4 where
    fin: "run_finally bk ?t1
      = (Inr (), ?t1 @ [Called NetStop (Returned o1), Called MgrStop (Returned o2),
           Called (CheckOutput (Sysctl ''net.ipv6.conf.all.disable_ipv6'' 0)) (Returned o3),
           Called (CheckOutput (Sysctl ''net.ipv6.conf.default.disable_ipv6'' 0)) (Returned o4)])"
    using run_finally_returns [of bk ?t1] by blast
  from run fin have whole: "?run
      = (Inr (), ?t1 @ [Called NetStop (Returned o1), Called MgrStop (Returned o2),
           Called (CheckOutput (Sysctl ''net.ipv6.conf.all.disable_ipv6'' 0)) (Returned o3),
           Called (CheckOutput (Sysctl ''net.ipv6.conf.default.disable_ipv6'' 0)) (Returned o4)])"
    by simp
  then show "fst ?run = Inr ()" by simp
  from whole show "\<exists>o1 o2 o3 o4. snd ?run
      = ?t1 @ [Called NetStop (Returned o1), Called MgrStop (Returned o2),
           Called (CheckOutput (Sysctl ''net.ipv6.conf.all.disable_ipv6'' 0)) (Returned o3),
           Called (CheckOutput (Sysctl ''net.ipv6.conf.default.disable_ipv6'' 0)) (Returned o4)]"
    by simp
  from whole show "sysctl_value ''net.ipv6.conf.all.disable_ipv6'' (snd ?run) = Some 0"
    by (simp only: snd_conv sysctl_value_end)
  from whole show "sysctl_value ''net.ipv6.conf.default.disable_ipv6'' (snd ?run) = Some 0"
    by (simp only: snd_conv sysctl_value_end)
qed

lemma run_cleanup_inside_try_example:
  "fst (run_setup backend_s2_fails 5 []) = Inr None
   \<and> fst (run_multihop_nc_test backend_s2_fails 100 10 False 5 0 Map.empty []) = Inr ()
   \<and> sysctl_value ''net.ipv6.conf.all.disable_ipv6''
        (snd (run_multihop_nc_test backend_s2_fails 100 10 False 5 0 Map.empty [])) = Some 0
   \<and> sysctl_value ''net.ipv6.conf.default.disable_ipv6''
        (snd (run_multihop_nc_test backend_s2_fails 100 10 False 5 0 Map.empty [])) = Some 0
   \<and> (\<exists>stop rest.
         snd (run_multihop_nc_test backend_s2_fails 100 10 False 5 0 Map.empty [])
           = snd (run_body backend_s2_fails 100 10 False 5 0 Map.empty None
                    (snd (run_setup backend_s2_fails 5 [])))
               @ Called NetStop stop # rest)
   \<and> fst (run_multihop_nc_test backend_ok 100 10 False 5 0 Map.empty []) = Inr ()
   \<and> sysctl_value ''net.ipv6.conf.all.disable_ipv6''
        (snd (run_multihop_nc_test backend_ok 100 10 False 5 0 Map.empty [])) = Some 0"
proof -
  have f: "fst (run_setup backend_s2_fails 5 []) = Inr None" by code_simp
  then have s: "run_setup backend_s2_fails 5 [] = (Inr None, snd (run_setup backend_s2_fails 5 []))"
    by (simp add: prod_eq_iff)
  have quiet: "(\<forall>t. backend_s2_fails t NetStop \<noteq> Raised)
      \<and> (\<forall>t. backend_s2_fails t MgrStop \<noteq> Raised)
      \<and> (\<forall>t. backend_s2_fails t (CheckOutput (Sysctl ''net.ipv6.conf.all.disable_ipv6'' 0))
             \<noteq> Raised)
      \<and> (\<forall>t. backend_s2_fails t (CheckOutput (Sysctl ''net.ipv6.conf.default.disable_ipv6'' 0))
             \<noteq> Raised)"
    by (simp add: backend_s2_fails_def)
  note w = run_cleanup_inside_try [OF s, of 100 10 False 0 Map.empty]
  have g: "fst (run_setup backend_ok 5 [])
      = Inr (Some [\<lparr>name = ''h1'', IP = ''10.0.0.1''\<rparr>, \<lparr>name = ''h2'', IP = ''10.0.0.2''\<rparr>,
                   \<lparr>name = ''h3'', IP = ''10.0.0.3''\<rparr>, \<lparr>name = ''h4'', IP = ''10.0.0.4''\<rparr>,
                   \<lparr>name = ''h5'', IP = ''10.0.0.5''\<rparr>])"
    by code_simp
  then have s': "run_setup backend_ok 5 []
      = (Inr (Some [\<lparr>name = ''h1'', IP = ''10.0.0.1''\<rparr>, \<lparr>name = ''h2'', IP = ''10.0.0.2''\<rparr>,
                   \<lparr>name = ''h3'', IP = ''10.0.0.3''\<rparr>, \<lparr>name = ''h4'', IP = ''10.0.0.4''\<rparr>,
                   \<lparr>name = ''h5'', IP = ''10.0.0.5''\<rparr>]), snd (run_setup backend_ok 5 []))"
    by (simp add: prod_eq_iff)
  have quiet': "(\<forall>t. backend_ok t NetStop \<noteq> Raised)
      \<and> (\<forall>t. backend_ok t MgrStop \<noteq> Raised)
      \<and> (\<forall>t. backend_ok t (CheckOutput (Sysctl ''net.ipv6.conf.all.disable_ipv6'' 0))
             \<noteq> Raised)
      \<and> (\<forall>t. backend_ok t (CheckOutput (Sysctl ''net.ipv6.conf.default.disable_ipv6'' 0))
             \<noteq> Raised)"
    by (simp add: backend_ok_def)
  note w' = run_cleanup_inside_try [OF s', of 100 10 False 0 Map.empty]
  from w quiet w' quiet' f show ?thesis by blast
qed

text \<open>
  C2, at failing inputs. \<open>config_ipv6("disable")\<close>, the two constructors and
  \<open>create_topology\<close> stand before the \<open>try\<close>, so what they raise leaves the run past
  its \<open>finally\<close> block. With \<open>host_num = 4\<close>, every call returning, the run ends in
  the \<open>RuntimeError\<close> of \<open>create_topology\<close>; with \<open>host_num = 7\<close> and a manager
  that cannot be created, it ends in that failure. In both runs IPv6 was disabled first,
  \<open>net.stop()\<close> is never called, no \<open>sysctl\<close> command enables IPv6 again, and both
  IPv6 switches are left at 1.
\<close>

theorem run_without_cleanup:
  "run_multihop_nc_test backend_ok 100 10 False 4 0 Map.empty []
     = (Inl (RuntimeError ''Require at least 5 hosts''),
        [Called (CheckOutput (Sysctl ''net.ipv6.conf.all.disable_ipv6'' 1)) (Returned ''1''),
         Called (CheckOutput (Sysctl ''net.ipv6.conf.default.disable_ipv6'' 1)) (Returned ''1''),
         Called Containernet (Returned ''1''),
         Called VNFManager (Returned ''1'')])
   \<and> filter (is_call NetStop)
        (snd (run_multihop_nc_test backend_ok 100 10 False 4 0 Map.empty [])) = []
   \<and> sysctl_value ''net.ipv6.conf.all.disable_ipv6''
        (snd (run_multihop_nc_test backend_ok 100 10 False 4 0 Map.empty [])) = Some 1
   \<and> sysctl_value ''net.ipv6.conf.default.disable_ipv6''
        (snd (run_multihop_nc_test backend_ok 100 10 False 4 0 Map.empty [])) = Some 1
   \<and> run_multihop_nc_test backend_mgr_fails 100 10 False 7 0 Map.empty []
     = (Inl (BackendError VNFManager),
        [Called (CheckOutput (Sysctl ''net.ipv6.conf.all.disable_ipv6'' 1)) (Returned ''1''),
         Called (CheckOutput (Sysctl ''net.ipv6.conf.default.disable_ipv6'' 1)) (Returned ''1''),
         Called Containernet (Returned ''1''),
         Called VNFManager Raised])
   \<and> filter (is_call NetStop)
        (snd (run_multihop_nc_test backend_mgr_fails 100 10 False 7 0 Map.empty [])) = []
   \<and> sysctl_value ''net.ipv6.conf.all.disable_ipv6''
        (snd (run_multihop_nc_test backend_mgr_fails 100 10 False 7 0 Map.empty [])) = Some 1
   \<and> sysctl_value ''net.ipv6.conf.default.disable_ipv6''
        (snd (run_multihop_nc_test backend_mgr_fails 100 10 False 7 0 Map.empty [])) = Some 1"
proof -
  have small: "run_multihop_nc_test backend_ok 100 10 False 4 0 Map.empty []
     = (Inl (RuntimeError ''Require at least 5 hosts''),
        [Called (CheckOutput (Sysctl ''net.ipv6.conf.all.disable_ipv6'' 1)) (Returned ''1''),
         Called (CheckOutput (Sysctl ''net.ipv6.conf.default.disable_ipv6'' 1)) (Returned ''1''),
         Called Containernet (Returned ''1''),
         Called VNFManager (Returned ''1'')])"
    by code_simp
  have mgr: "run_multihop_nc_test backend_mgr_fails 100 10 False 7 0 Map.empty []
     = (Inl (BackendError VNFManager),
        [Called (CheckOutput (Sysctl ''net.ipv6.conf.all.disable_ipv6'' 1)) (Returned ''1''),
         Called (CheckOutput (Sysctl ''net.ipv6.conf.default.disable_ipv6'' 1)) (Returned ''1''),
         Called Containernet (Returned ''1''),
         Called VNFManager Raised])"
    by code_simp
  have "filter (is_call NetStop)
        (snd (run_multihop_nc_test backend_ok 100 10 False 4 0 Map.empty [])) = []"
    "sysctl_value ''net.ipv6.conf.all.disable_ipv6''
        (snd (run_multihop_nc_test backend_ok 100 10 False 4 0 Map.empty [])) = Some 1"
    "sysctl_value ''net.ipv6.conf.default.disable_ipv6''
        (snd (run_multihop_nc_test backend_ok 100 10 False 4 0 Map.empty [])) = Some 1"
    unfolding small by code_simp+
  moreover have "filter (is_call NetStop)
        (snd (run_multihop_nc_test backend_mgr_fails 100 10 False 7 0 Map.empty [])) = []"
    "sysctl_value ''net.ipv6.conf.all.disable_ipv6''
        (snd (run_multihop_nc_test backend_mgr_fails 100 10 False 7 0 Map.empty [])) = Some 1"
    "sysctl_value ''net.ipv6.conf.default.disable_ipv6''
        (snd (run_multihop_nc_test backend_mgr_fails 100 10 False 7 0 Map.empty [])) = Some 1"
    unfolding mgr by code_simp+
  ultimately show ?thesis using small mgr by blast
qed

section \<open>What a run starts with\<close>

lemma bindE_extends:
  assumes "\<And>t. \<exists>evs. snd (m t) = t @ evs" and "\<And>x t. \<exists>evs. snd (f x t) = t @ evs"
  shows "\<exists>evs. snd (bindE m f tr) = tr @ evs"
proof (cases "m tr")
  case (Pair r t1)
  from assms(1) [of tr] Pair obtain e1 where e1: "t1 = tr @ e1" by auto
  show ?thesis
  proof (cases r)
    case (Inl e)
    with Pair e1 show ?thesis by (simp add: bindE_def)
  next
    case (Inr x)
    from assms(2) [of x t1] obtain e2 where "snd (f x t1) = t1 @ e2" by blast
    with Pair Inr e1 show ?thesis by (simp add: bindE_def)
  qed
qed

lemma backend_call_extends: "\<exists>evs. snd (backend_call bk c tr) = tr @ evs"
  by (simp add: backend_call_def split: outcome.splits)

lemma ret_extends: "\<exists>evs. snd (ret x tr) = tr @ evs"
  by (simp add: ret_def)

lemma topo_loop_extends: "\<exists>evs. snd (topo_loop bk is hosts last_sw tr) = tr @ evs"
proof (induction "is" arbitrary: hosts last_sw tr)
  case Nil
  show ?case by (simp add: ret_def)
next
  case (Cons i "is")
  have link: "\<exists>evs. snd ((case last_sw of None \<Rightarrow> ret ()
              | Some l \<Rightarrow> bindE (backend_call bk (AddLinkNamedIfce sw l ''20ms'' (Some 20)))
                           (\<lambda>_. ret ())) t) = t @ evs" for sw t
  proof (cases last_sw)
    case None
    then show ?thesis by (simp add: ret_def)
  next
    case (Some l)
    show ?thesis unfolding Some option.case
      by (intro bindE_extends backend_call_extends ret_extends)
  qed
  show ?case
    unfolding topo_loop.simps Let_def
    by (intro bindE_extends backend_call_extends link Cons.IH)
qed

lemma create_topology_extends: "\<exists>evs. snd (create_topology bk host_num tr) = tr @ evs"
proof (cases "host_num < 5")
  case True
  then show ?thesis by (simp add: create_topology_def throw_def)
next
  case False
  let ?body = "bindE (backend_call bk (AddController ''c0''))
                (\<lambda>_. bindE (topo_loop bk [0..<nat host_num] [] None)
                (\<lambda>hosts. ret (Some hosts)))"
  have "\<exists>evs. snd (?body tr) = tr @ evs"
    by (intro bindE_extends backend_call_extends topo_loop_extends ret_extends)
  then obtain e1 where e1: "snd (?body tr) = tr @ e1" by blast
  have "\<exists>evs. snd (bindE (backend_call bk NetStop) (\<lambda>_. ret (None :: node list option)) (tr @ e1)) = (tr @ e1) @ evs"
    by (intro bindE_extends backend_call_extends ret_extends)
  then obtain e2 where
    e2: "snd (bindE (backend_call bk NetStop) (\<lambda>_. ret (None :: node list option)) (tr @ e1)) = tr @ e1 @ e2"
    by auto
  show ?thesis
  proof (cases "?body tr")
    case (Pair r t1)
    with e1 have t1: "t1 = tr @ e1" by simp
    show ?thesis
    proof (cases r)
      case (Inl e)
      with Pair False t1 have "snd (create_topology bk host_num tr)
          = snd (bindE (backend_call bk NetStop) (\<lambda>_. ret (None :: node list option)) (tr @ e1))"
        by (simp add: create_topology_def try_except_def)
      with e2 have "snd (create_topology bk host_num tr) = tr @ (e1 @ e2)" by simp
      then show ?thesis by (rule exI)
    next
      case (Inr x)
      with Pair False t1 show ?thesis
        by (simp add: create_topology_def try_except_def)
    qed
  qed
qed

text \<open>
  When the lines before the \<open>try\<close> have returned, the run has started with the two
  \<open>sysctl\<close> commands that disable IPv6, and both returned.
\<close>

lemma run_setup_disables_ipv6:
  assumes "run_setup bk host_num tr = (Inr hosts, tr0)"
  shows "\<exists>a b evs. tr0 = tr @ [Called (CheckOutput (Sysctl ''net.ipv6.conf.all.disable_ipv6'' 1))
                                 (Returned a),
                               Called (CheckOutput (Sysctl ''net.ipv6.conf.default.disable_ipv6'' 1))
                                 (Returned b)] @ evs"
proof -
  from assms obtain a b c d where
    topo: "create_topology bk host_num
             (tr @ [Called (CheckOutput (Sysctl ''net.ipv6.conf.all.disable_ipv6'' 1)) (Returned a),
                    Called (CheckOutput (Sysctl ''net.ipv6.conf.default.disable_ipv6'' 1)) (Returned b),
                    Called Containernet (Returned c), Called VNFManager (Returned d)])
           = (Inr hosts, tr0)"
    by (auto simp: run_setup_def config_ipv6_def check_output_def bindE_Inr backend_call_Inr
          ret_Inr)
  from create_topology_extends [of bk host_num
      "tr @ [Called (CheckOutput (Sysctl ''net.ipv6.conf.all.disable_ipv6'' 1)) (Returned a),
             Called (CheckOutput (Sysctl ''net.ipv6.conf.default.disable_ipv6'' 1)) (Returned b),
             Called Containernet (Returned c), Called VNFManager (Returned d)]"] topo
  obtain evs where
    "tr0 = (tr @ [Called (CheckOutput (Sysctl ''net.ipv6.conf.all.disable_ipv6'' 1)) (Returned a),
             Called (CheckOutput (Sysctl ''net.ipv6.conf.default.disable_ipv6'' 1)) (Returned b),
             Called Containernet (Returned c), Called VNFManager (Returned d)]) @ evs"
    by auto
  then show ?thesis by auto
qed

section \<open>A backend that never raises\<close>

text \<open>
  On a backend that raises nothing, \<open>create_topology\<close> returns the hosts for every
  \<open>host_num \<ge> 5\<close>, \<open>add_ovs_flows\<close> returns, and \<open>deploy_coders\<close> returns
  whenever its indices are within the hosts and the action map.
\<close>

lemma bindE_ok:
  assumes "\<And>t. \<exists>x. fst (m t) = Inr x" and "\<And>x t. \<exists>y. fst (f x t) = Inr y"
  shows "\<exists>y. fst (bindE m f tr) = Inr y"
proof -
  from assms(1) obtain x where "fst (m tr) = Inr x" by blast
  then have "bindE m f tr = f x (snd (m tr))"
    by (cases "m tr") (simp add: bindE_def)
  with assms(2) show ?thesis by simp
qed

lemma backend_call_ok:
  assumes "\<forall>t c. bk t c \<noteq> Raised"
  shows "\<exists>s. fst (backend_call bk c tr) = Inr s"
proof -
  from assms obtain s where "bk tr c = Returned s" by (meson outcome.exhaust)
  then show ?thesis by (simp add: backend_call_def)
qed

lemma ret_ok: "\<exists>y. fst (ret x tr) = Inr y"
  by (simp add: ret_def)

lemma topo_loop_ok:
  "\<forall>t c. bk t c \<noteq> Raised \<Longrightarrow> \<exists>hs. fst (topo_loop bk is hosts last_sw tr) = Inr hs"
proof (induction "is" arbitrary: hosts last_sw tr)
  case Nil
  then show ?case by (simp add: ret_def)
next
  case (Cons i "is")
  note ok = backend_call_ok [OF Cons.prems]
  have link: "\<exists>u. fst ((case last_sw of None \<Rightarrow> ret ()
              | Some l \<Rightarrow> bindE (backend_call bk (AddLinkNamedIfce sw l ''20ms'' (Some 20)))
                           (\<lambda>_. ret ())) t) = Inr u" for sw t
  proof (cases last_sw)
    case None
    then show ?thesis by (simp add: ret_def)
  next
    case (Some l)
    show ?thesis unfolding Some option.case by (intro bindE_ok ok ret_ok)
  qed
  show ?case
    unfolding topo_loop.simps Let_def
    by (intro bindE_ok ok link Cons.IH [OF Cons.prems])
qed

lemma create_topology_returns:
  assumes "\<forall>t c. bk t c \<noteq> Raised" and "5 \<le> host_num"
  shows "\<exists>hosts tr'. create_topology bk host_num tr = (Inr (Some hosts), tr')"
proof -
  from backend_call_ok [OF assms(1)]
  have "\<exists>s. fst (backend_call bk (AddController ''c0'') tr) = Inr s" .
  then obtain s t1 where c0: "backend_call bk (AddController ''c0'') tr = (Inr s, t1)"
    by (cases "backend_call bk (AddController ''c0'') tr") auto
  from topo_loop_ok [OF assms(1)]
  have "\<exists>hs. fst (topo_loop bk [0..<nat host_num] [] None t1) = Inr hs" .
  then obtain hs t2 where "topo_loop bk [0..<nat host_num] [] None t1 = (Inr hs, t2)"
    by (cases "topo_loop bk [0..<nat host_num] [] None t1") auto
  with c0 assms(2) have "create_topology bk host_num tr = (Inr (Some hs), t2)"
    by (simp add: create_topology_def try_except_def bindE_def ret_def)
  then show ?thesis by blast
qed

lemma for_each_ok:
  "(\<And>x t. \<exists>u. fst (body x t) = Inr u) \<Longrightarrow> \<exists>u. fst (for_each xs body tr) = Inr u"
proof (induction xs arbitrary: tr)
  case Nil
  then show ?case by (simp add: ret_def)
next
  case (Cons x xs)
  show ?case
    unfolding for_each.simps
    by (intro bindE_ok Cons.prems Cons.IH)
qed

lemma add_ovs_flows_returns:
  assumes "\<forall>t c. bk t c \<noteq> Raised"
  shows "\<exists>tr'. add_ovs_flows bk switch_num tr = (Inr (), tr')"
proof -
  note ok = backend_call_ok [OF assms]
  have "\<exists>u. fst (add_ovs_flows_body bk i t) = Inr u" for i t
  proof -
    have tail: "\<exists>u. fst ((if i = 0 then ret ()
          else bindE (backend_call bk
                        (CheckOutput (OvsGetOfport (''s'' @ str_nat (i + 1) @ ''-s'' @ str_nat i))))
                 (\<lambda>in_port.
                    bindE (backend_call bk
                             (CheckOutput
                                (OvsGetOfport (''s'' @ str_nat (i + 1) @ ''-h'' @ str_nat (i + 1)))))
                      (\<lambda>out_port.
                         bindE (backend_call bk
                                  (CheckOutput (OvsAddFlow (i + 1) ''udp'' in_port out_port)))
                           (\<lambda>_. ret ())))) t') = Inr u" for t'
    proof (cases "i = 0")
      case True
      then show ?thesis by (simp add: ret_def)
    next
      case False
      show ?thesis unfolding if_not_P [OF False] by (intro bindE_ok ok ret_ok)
    qed
    show ?thesis
      unfolding add_ovs_flows_body_def check_output_def get_ofport_def
      by (intro bindE_ok ok tail)
  qed
  then have "\<exists>u. fst (add_ovs_flows bk switch_num tr) = Inr u"
    unfolding add_ovs_flows_def by (intro for_each_ok)
  then show ?thesis by (cases "add_ovs_flows bk switch_num tr") auto
qed

lemma subscript_ok: "py_index xs i \<noteq> None \<Longrightarrow> \<exists>x. fst (subscript xs i t) = Inr x"
  by (auto simp: subscript_def ret_def)

lemma sleep_ok: "0 \<le> n \<Longrightarrow> \<exists>u. fst (sleep n t) = Inr u"
  by (simp add: sleep_def)

lemma relay_loop_ok:
  "\<forall>t c. bk t c \<noteq> Raised \<Longrightarrow>
   \<forall>i\<in>set is. 2 \<le> i \<and> nat i < length hosts \<and> nat (i - 2) < length am \<Longrightarrow>
   \<exists>rs. fst (relay_loop bk hosts am is recs tr) = Inr rs"
proof (induction "is" arbitrary: recs tr)
  case Nil
  then show ?case by (simp add: ret_def)
next
  case (Cons i "is")
  note ok = backend_call_ok [OF Cons.prems(1)]
  from Cons.prems(2) have am: "py_index am (i - 2) \<noteq> None" and hs: "py_index hosts i \<noteq> None"
    and rest: "\<forall>j\<in>set is. 2 \<le> j \<and> nat j < length hosts \<and> nat (j - 2) < length am"
    by (simp_all add: py_index_nonneg)
  show ?case
    unfolding relay_loop.simps
    by (intro bindE_ok ok subscript_ok am hs Cons.IH [OF Cons.prems(1) rest])
qed

lemma deploy_coders_returns:
  assumes "\<forall>t c. bk t c \<noteq> Raised" and "2 \<le> rec_st_idx" and "0 \<le> relay_num"
    and "rec_st_idx + relay_num \<le> int (length hosts)"
    and "rec_st_idx + relay_num - 2 \<le> int (length action_map)"
  shows "\<exists>coders tr'.
     deploy_coders bk (Some hosts) rec_st_idx relay_num action_map tr = (Inr coders, tr')"
proof -
  note ok = backend_call_ok [OF assms(1)]
  have range: "\<forall>i\<in>set (py_range rec_st_idx (rec_st_idx + relay_num)).
      2 \<le> i \<and> nat i < length hosts \<and> nat (i - 2) < length action_map"
    using assms(2,4,5) by (auto simp: py_range_def)
  from assms(2,3,4) have len: "2 \<le> length hosts" by simp
  then have dec: "py_index hosts (- 2) \<noteq> None" and enc: "py_index hosts 1 \<noteq> None"
    by (simp_all add: py_index_def)
  have "\<exists>cs. fst (deploy_coders bk (Some hosts) rec_st_idx relay_num action_map tr) = Inr cs"
    unfolding deploy_coders_def option.case
    by (intro bindE_ok ok ret_ok subscript_ok dec enc sleep_ok assms(3)
          relay_loop_ok [OF assms(1) range])
  then show ?thesis
    by (cases "deploy_coders bk (Some hosts) rec_st_idx relay_num action_map tr") auto
qed

end
